theory Spec2Isabelle
  imports Main "HOL-Library.AList"
begin

section \<open>Workflow records (workflow\_state.py, models.py)\<close>

text \<open>
  The three enumerations of the source. \<open>WorkflowPhase.COMPLETED\<close> is written
  \<open>PHASE_COMPLETED\<close>, since \<open>WorkflowStatus\<close> has a member of the same name.
\<close>

datatype WorkflowStatus =
    INITIALIZING
  | GENERATING_REQUIREMENTS
  | AWAITING_REQUIREMENTS_APPROVAL
  | GENERATING_DESIGN
  | AWAITING_DESIGN_APPROVAL
  | GENERATING_TASKS
  | AWAITING_TASKS_APPROVAL
  | GENERATING_FINAL_DOCUMENTS
  | COMPLETED
  | FAILED
  | CANCELLED

datatype WorkflowAction =
    START_GENERATION | APPROVE | REJECT | REQUEST_REVISION | CANCEL | RETRY

datatype WorkflowPhase = REQUIREMENTS | DESIGN | TASKS | PHASE_COMPLETED

text \<open>
  A workflow record is a Python dict with string keys (\<open>WorkflowGraphState\<close> is a
  \<open>TypedDict\<close>, a plain dict at run time). It is modelled as an association list in
  insertion order; \<open>map_of\<close> reads a key and \<open>AList.update\<close> is the assignment
  \<open>d[k] = v\<close> (in place when the key exists, appended otherwise).
\<close>

datatype pyval =
    PyNone
  | PyStr string
  | PyBool bool
  | PyInt int
  | PyStatus WorkflowStatus
  | PyPhase WorkflowPhase
  | PyAction WorkflowAction
  | PyList "pyval list"
  | PyDict "(string \<times> pyval) list"

type_synonym pydict = "(string \<times> pyval) list"

type_synonym WorkflowGraphState = pydict

text \<open>
  Exceptions are values. \<open>str_of_error\<close> is \<open>str(e)\<close>: the message, and for a
  \<open>KeyError\<close> the quoted key (the keys looked up by this program are identifiers, for
  which \<open>repr\<close> only adds the quotes). \<open>TypeError\<close> stands for what Python raises,
  or does, when a key holds a value outside the type that \<open>WorkflowGraphState\<close>
  declares for it; no record built by the manager holds such a value.
\<close>

datatype pyerror =
    ValueError string
  | KeyError string
  | TypeError string
  | LLMError string
  | RateLimitError string
  | AuthenticationError string
  | ModelNotFoundError string

fun str_of_error :: "pyerror \<Rightarrow> string" where
  "str_of_error (ValueError m) = m"
| "str_of_error (KeyError k) = [CHR 0x27] @ k @ [CHR 0x27]"
| "str_of_error (TypeError m) = m"
| "str_of_error (LLMError m) = m"
| "str_of_error (RateLimitError m) = m"
| "str_of_error (AuthenticationError m) = m"
| "str_of_error (ModelNotFoundError m) = m"

text \<open>Python truth value of a stored value (\<open>if not x\<close>).\<close>

fun truthy :: "pyval \<Rightarrow> bool" where
  "truthy PyNone = False"
| "truthy (PyStr s) = (s \<noteq> [])"
| "truthy (PyBool b) = b"
| "truthy (PyInt n) = (n \<noteq> 0)"
| "truthy (PyStatus s) = True"
| "truthy (PyPhase p) = True"
| "truthy (PyAction a) = True"
| "truthy (PyList xs) = (xs \<noteq> [])"
| "truthy (PyDict kvs) = (kvs \<noteq> [])"

definition py_optional :: "string option \<Rightarrow> pyval" where
  "py_optional x = (case x of None \<Rightarrow> PyNone | Some s \<Rightarrow> PyStr s)"

text \<open>\<open>state[key]\<close>: a missing key raises \<open>KeyError\<close>.\<close>

definition getitem :: "pydict \<Rightarrow> string \<Rightarrow> pyerror + pyval" where
  "getitem d key = (case map_of d key of None \<Rightarrow> Inl (KeyError key) | Some v \<Rightarrow> Inr v)"

definition getitem_str :: "pydict \<Rightarrow> string \<Rightarrow> pyerror + string" where
  "getitem_str d key =
     (case map_of d key of
        None \<Rightarrow> Inl (KeyError key)
      | Some (PyStr s) \<Rightarrow> Inr s
      | Some _ \<Rightarrow> Inl (TypeError key))"

section \<open>The state manager (class WorkflowStateManager)\<close>

text \<open>
  \<open>_active_workflows\<close> maps workflow ids to records. Every operation takes the
  store and returns the new one together with the record it returns in the source;
  \<open>now\<close> is the reading of \<open>datetime.utcnow().isoformat()\<close>. An operation that
  raises returns the exception alone.
\<close>

type_synonym store = "string \<rightharpoonup> WorkflowGraphState"

definition initial_state ::
  "string \<Rightarrow> string \<Rightarrow> string \<Rightarrow> string \<Rightarrow> string \<Rightarrow> bool \<Rightarrow> string \<Rightarrow> WorkflowGraphState" where
  "initial_state workflow_id feature_name description llm_provider model_name research_enabled now =
     [(''workflow_id'', PyStr workflow_id),
      (''feature_name'', PyStr feature_name),
      (''initial_description'', PyStr description),
      (''status'', PyStatus INITIALIZING),
      (''current_phase'', PyPhase REQUIREMENTS),
      (''requirements_content'', PyNone),
      (''design_content'', PyNone),
      (''tasks_content'', PyNone),
      (''requirements_approved'', PyBool False),
      (''design_approved'', PyBool False),
      (''tasks_approved'', PyBool False),
      (''pending_approval'', PyNone),
      (''user_feedback'', PyNone),
      (''last_user_action'', PyNone),
      (''conversation_history'', PyList []),
      (''llm_provider'', PyStr llm_provider),
      (''model_name'', PyStr model_name),
      (''research_enabled'', PyBool research_enabled),
      (''research_results'', PyNone),
      (''retry_count'', PyInt 0),
      (''last_error'', PyNone),
      (''created_at'', PyStr now),
      (''updated_at'', PyStr now),
      (''generated_files'', PyDict [])]"

definition create_workflow_state ::
  "store \<Rightarrow> string \<Rightarrow> string \<Rightarrow> string \<Rightarrow> string \<Rightarrow> string \<Rightarrow> bool \<Rightarrow> string
     \<Rightarrow> store \<times> WorkflowGraphState" where
  "create_workflow_state store workflow_id feature_name description llm_provider model_name
       research_enabled now =
     (let state = initial_state workflow_id feature_name description llm_provider model_name
                    research_enabled now
      in (store(workflow_id \<mapsto> state), state))"

definition get_workflow_state :: "store \<Rightarrow> string \<Rightarrow> WorkflowGraphState option" where
  "get_workflow_state store workflow_id = store workflow_id"

text \<open>
  The loop of \<open>update_workflow_state\<close>:
  \<^verbatim>\<open>for key, value in updates.items(): if key in state: state[key] = value\<close>
\<close>

fun update_fields :: "pydict \<Rightarrow> WorkflowGraphState \<Rightarrow> WorkflowGraphState" where
  "update_fields [] state = state"
| "update_fields ((key, value) # rest) state =
     update_fields rest
       (if map_of state key \<noteq> None then AList.update key value state else state)"

definition not_found :: "string \<Rightarrow> pyerror" where
  "not_found workflow_id = ValueError (''Workflow '' @ workflow_id @ '' not found'')"

definition update_workflow_state ::
  "store \<Rightarrow> string \<Rightarrow> pydict \<Rightarrow> string \<Rightarrow> pyerror + (store \<times> WorkflowGraphState)" where
  "update_workflow_state store workflow_id updates now =
     (case store workflow_id of
        None \<Rightarrow> Inl (not_found workflow_id)
      | Some state \<Rightarrow>
          (let state' = AList.update ''updated_at'' (PyStr now) (update_fields updates state)
           in Inr (store(workflow_id \<mapsto> state'), state')))"

definition transition_to_phase ::
  "store \<Rightarrow> string \<Rightarrow> WorkflowPhase \<Rightarrow> WorkflowStatus \<Rightarrow> string
     \<Rightarrow> pyerror + (store \<times> WorkflowGraphState)" where
  "transition_to_phase store workflow_id phase status now =
     update_workflow_state store workflow_id
       [(''current_phase'', PyPhase phase),
        (''status'', PyStatus status),
        (''pending_approval'', PyNone),
        (''user_feedback'', PyNone),
        (''last_user_action'', PyNone),
        (''retry_count'', PyInt 0),
        (''last_error'', PyNone)]
       now"

definition status_map :: "(string \<times> WorkflowStatus) list" where
  "status_map =
     [(''requirements'', AWAITING_REQUIREMENTS_APPROVAL),
      (''design'', AWAITING_DESIGN_APPROVAL),
      (''tasks'', AWAITING_TASKS_APPROVAL)]"

text \<open>
  \<open>set_pending_approval\<close>: the dict literal evaluates \<open>status_map[phase]\<close> first, so
  an unknown phase raises \<open>KeyError\<close> before anything is stored.
\<close>

definition set_pending_approval ::
  "store \<Rightarrow> string \<Rightarrow> string \<Rightarrow> string \<Rightarrow> string \<Rightarrow> pyerror + (store \<times> WorkflowGraphState)" where
  "set_pending_approval store workflow_id phase content now =
     (let content_field = phase @ ''_content''
      in case map_of status_map phase of
           None \<Rightarrow> Inl (KeyError phase)
         | Some awaiting \<Rightarrow>
             update_workflow_state store workflow_id
               (AList.update content_field (PyStr content)
                  [(''status'', PyStatus awaiting), (''pending_approval'', PyStr phase)])
               now)"

text \<open>
  The \<open>updates\<close> dict that \<open>handle_user_approval\<close> builds for a pending phase. An
  action other than approve, request\_revision and reject matches no branch of the
  \<open>if\<close>/\<open>elif\<close> chain, and an approved or revised phase other than the three known
  ones matches no inner branch.
\<close>

definition approval_updates :: "string \<Rightarrow> WorkflowAction \<Rightarrow> pyval \<Rightarrow> pydict" where
  "approval_updates pending_phase action feedback =
     (let updates = [(''last_user_action'', PyAction action),
                     (''user_feedback'', feedback),
                     (''pending_approval'', PyNone)]
      in if action = APPROVE then
           (let approval_field = pending_phase @ ''_approved'';
                updates = AList.update approval_field (PyBool True) updates
            in if pending_phase = ''requirements'' then
                 AList.update ''current_phase'' (PyPhase DESIGN)
                   (AList.update ''status'' (PyStatus GENERATING_DESIGN) updates)
               else if pending_phase = ''design'' then
                 AList.update ''current_phase'' (PyPhase TASKS)
                   (AList.update ''status'' (PyStatus GENERATING_TASKS) updates)
               else if pending_phase = ''tasks'' then
                 AList.update ''current_phase'' (PyPhase PHASE_COMPLETED)
                   (AList.update ''status'' (PyStatus GENERATING_FINAL_DOCUMENTS) updates)
               else updates)
         else if action = REQUEST_REVISION then
           (if pending_phase = ''requirements'' then
              AList.update ''status'' (PyStatus GENERATING_REQUIREMENTS) updates
            else if pending_phase = ''design'' then
              AList.update ''status'' (PyStatus GENERATING_DESIGN) updates
            else if pending_phase = ''tasks'' then
              AList.update ''status'' (PyStatus GENERATING_TASKS) updates
            else updates)
         else if action = REJECT then
           AList.update ''status'' (PyStatus CANCELLED) updates
         else updates)"

definition no_pending :: "string \<Rightarrow> pyerror" where
  "no_pending workflow_id = ValueError (''No pending approval for workflow '' @ workflow_id)"

text \<open>
  \<open>handle_user_approval\<close>. \<open>if not state\<close> also rejects an empty dict;
  \<open>if not pending_phase\<close> rejects every falsy value. \<open>pending_approval\<close> is declared
  \<open>Optional[str]\<close>, so a truthy value is a string.
\<close>

definition handle_user_approval ::
  "store \<Rightarrow> string \<Rightarrow> WorkflowAction \<Rightarrow> string option \<Rightarrow> string
     \<Rightarrow> pyerror + (store \<times> WorkflowGraphState)" where
  "handle_user_approval store workflow_id action feedback now =
     (case get_workflow_state store workflow_id of
        None \<Rightarrow> Inl (not_found workflow_id)
      | Some state \<Rightarrow>
          if state = [] then Inl (not_found workflow_id)
          else (case map_of state ''pending_approval'' of
                  None \<Rightarrow> Inl (KeyError ''pending_approval'')
                | Some pending \<Rightarrow>
                    if \<not> truthy pending then Inl (no_pending workflow_id)
                    else (case pending of
                            PyStr pending_phase \<Rightarrow>
                              update_workflow_state store workflow_id
                                (approval_updates pending_phase action (py_optional feedback)) now
                          | _ \<Rightarrow> Inl (TypeError ''pending_approval''))))"

text \<open>\<open>add_conversation_message\<close>; \<open>stamp\<close> is the message's own timestamp.\<close>

definition add_conversation_message ::
  "store \<Rightarrow> string \<Rightarrow> string \<Rightarrow> string \<Rightarrow> pydict \<Rightarrow> string \<Rightarrow> string
     \<Rightarrow> pyerror + (store \<times> WorkflowGraphState)" where
  "add_conversation_message store workflow_id role content metadata stamp now =
     (case get_workflow_state store workflow_id of
        None \<Rightarrow> Inl (not_found workflow_id)
      | Some state \<Rightarrow>
          if state = [] then Inl (not_found workflow_id)
          else (let message = PyDict [(''role'', PyStr role),
                                      (''content'', PyStr content),
                                      (''timestamp'', PyStr stamp),
                                      (''metadata'', PyDict metadata)]
                in case map_of state ''conversation_history'' of
                     None \<Rightarrow> Inl (KeyError ''conversation_history'')
                   | Some (PyList history) \<Rightarrow>
                       update_workflow_state store workflow_id
                         [(''conversation_history'', PyList (history @ [message]))] now
                   | Some _ \<Rightarrow> Inl (TypeError ''conversation_history'')))"

definition cleanup_workflow :: "store \<Rightarrow> string \<Rightarrow> store \<times> bool" where
  "cleanup_workflow store workflow_id =
     (if store workflow_id \<noteq> None then (store(workflow_id := None), True) else (store, False))"

text \<open>
  The reset operation (api/workflow\_routes.py, \<open>reset_workflow\<close>): a missing or
  empty record is answered with HTTP 404, written here as the manager's not-found error.
\<close>

definition reset_workflow :: "store \<Rightarrow> string \<Rightarrow> string \<Rightarrow> pyerror + (store \<times> WorkflowGraphState)" where
  "reset_workflow store workflow_id now =
     (case get_workflow_state store workflow_id of
        None \<Rightarrow> Inl (not_found workflow_id)
      | Some state \<Rightarrow>
          if state = [] then Inl (not_found workflow_id)
          else update_workflow_state store workflow_id
                 [(''status'', PyStatus INITIALIZING),
                  (''current_phase'', PyPhase REQUIREMENTS),
                  (''requirements_content'', PyNone),
                  (''design_content'', PyNone),
                  (''tasks_content'', PyNone),
                  (''requirements_approved'', PyBool False),
                  (''design_approved'', PyBool False),
                  (''tasks_approved'', PyBool False),
                  (''pending_approval'', PyNone),
                  (''user_feedback'', PyNone),
                  (''last_user_action'', PyNone),
                  (''retry_count'', PyInt 0),
                  (''last_error'', PyNone),
                  (''generated_files'', PyDict [])]
                 now)"

section \<open>Workflow nodes and routing (workflow\_nodes.py, workflow.py)\<close>

text \<open>
  The three generation nodes share one shape. Between the first store update and the
  recording of the answer, a node builds the prompt from the record, obtains a client
  and invokes the model; that part is the parameter \<open>invoke\<close>, which either raises
  (\<open>Inl\<close>) or returns the content of the response. \<open>now k\<close> is the clock reading
  taken at the \<open>k\<close>-th place of the node that reads the clock.

  When the \<open>try\<close> block raises, \<open>generation_attempt\<close> returns the exception with the
  store and the value of the local variable \<open>state\<close> at that moment. After the first
  update, \<open>state\<close> is the record stored under \<open>workflow_id\<close> itself (the manager
  updates it in place), so it follows a later update of that record. The last statement
  of the block logs \<open>state["workflow_id"]\<close> of the record that \<open>set_pending_approval\<close>
  returned.
\<close>

definition generation_attempt ::
  "WorkflowStatus \<Rightarrow> string \<Rightarrow> store \<Rightarrow> WorkflowGraphState \<Rightarrow> string
     \<Rightarrow> (WorkflowGraphState \<Rightarrow> pyerror + string) \<Rightarrow> (nat \<Rightarrow> string)
     \<Rightarrow> (pyerror \<times> store \<times> WorkflowGraphState) + (store \<times> WorkflowGraphState)" where
  "generation_attempt generating phase store state workflow_id invoke now =
     (case update_workflow_state store workflow_id [(''status'', PyStatus generating)] (now 0) of
        Inl e \<Rightarrow> Inl (e, store, state)
      | Inr (store1, state1) \<Rightarrow>
          (case invoke state1 of
             Inl e \<Rightarrow> Inl (e, store1, state1)
           | Inr content \<Rightarrow>
               (case getitem_str state1 ''workflow_id'' of
                  Inl e \<Rightarrow> Inl (e, store1, state1)
                | Inr id1 \<Rightarrow>
                    (case getitem state1 ''model_name'' of
                       Inl e \<Rightarrow> Inl (e, store1, state1)
                     | Inr model \<Rightarrow>
                         (case add_conversation_message store1 id1 ''assistant'' content
                                 [(''phase'', PyStr phase), (''model'', model)] (now 1) (now 2) of
                            Inl e \<Rightarrow> Inl (e, store1, state1)
                          | Inr (store2, state2) \<Rightarrow>
                              (case set_pending_approval store2 id1 phase content (now 3) of
                                 Inl e \<Rightarrow>
                                   Inl (e, store2, if id1 = workflow_id then state2 else state1)
                               | Inr (store3, state3) \<Rightarrow>
                                   (case getitem state3 ''workflow_id'' of
                                      Inl e \<Rightarrow> Inl (e, store3, state3)
                                    | Inr _ \<Rightarrow> Inr (store3, state3))))))))"

text \<open>\<open>state["retry_count"] + 1\<close>: Python adds to an int and to a bool.\<close>

fun py_add :: "pyval \<Rightarrow> int \<Rightarrow> pyerror + pyval" where
  "py_add (PyInt n) k = Inr (PyInt (n + k))"
| "py_add (PyBool b) k = Inr (PyInt ((if b then 1 else 0) + k))"
| "py_add v k = Inl (TypeError ''unsupported operand type(s) for +'')"

text \<open>The \<open>except Exception as e\<close> block of a generation node.\<close>

definition generation_failed ::
  "store \<Rightarrow> WorkflowGraphState \<Rightarrow> pyerror \<Rightarrow> string \<Rightarrow> pyerror + (store \<times> WorkflowGraphState)" where
  "generation_failed store state e now =
     (case getitem_str state ''workflow_id'' of
        Inl e' \<Rightarrow> Inl e'
      | Inr workflow_id \<Rightarrow>
          (case getitem state ''retry_count'' of
             Inl e' \<Rightarrow> Inl e'
           | Inr retry_count \<Rightarrow>
               (case py_add retry_count 1 of
                  Inl e' \<Rightarrow> Inl e'
                | Inr retry_count' \<Rightarrow>
                    update_workflow_state store workflow_id
                      [(''status'', PyStatus FAILED),
                       (''last_error'', PyStr (str_of_error e)),
                       (''retry_count'', retry_count')]
                      now)))"

definition generation_node ::
  "WorkflowStatus \<Rightarrow> string \<Rightarrow> store \<Rightarrow> WorkflowGraphState
     \<Rightarrow> (WorkflowGraphState \<Rightarrow> pyerror + string) \<Rightarrow> (nat \<Rightarrow> string)
     \<Rightarrow> pyerror + (store \<times> WorkflowGraphState)" where
  "generation_node generating phase store state invoke now =
     (case getitem_str state ''workflow_id'' of
        Inl e \<Rightarrow> Inl e
      | Inr workflow_id \<Rightarrow>
          (case generation_attempt generating phase store state workflow_id invoke now of
             Inr result \<Rightarrow> Inr result
           | Inl (e, store', state') \<Rightarrow> generation_failed store' state' e (now 4)))"

definition generate_requirements_node ::
  "store \<Rightarrow> WorkflowGraphState \<Rightarrow> (WorkflowGraphState \<Rightarrow> pyerror + string) \<Rightarrow> (nat \<Rightarrow> string)
     \<Rightarrow> pyerror + (store \<times> WorkflowGraphState)" where
  "generate_requirements_node = generation_node GENERATING_REQUIREMENTS ''requirements''"

definition generate_design_node ::
  "store \<Rightarrow> WorkflowGraphState \<Rightarrow> (WorkflowGraphState \<Rightarrow> pyerror + string) \<Rightarrow> (nat \<Rightarrow> string)
     \<Rightarrow> pyerror + (store \<times> WorkflowGraphState)" where
  "generate_design_node = generation_node GENERATING_DESIGN ''design''"

definition generate_tasks_node ::
  "store \<Rightarrow> WorkflowGraphState \<Rightarrow> (WorkflowGraphState \<Rightarrow> pyerror + string) \<Rightarrow> (nat \<Rightarrow> string)
     \<Rightarrow> pyerror + (store \<times> WorkflowGraphState)" where
  "generate_tasks_node = generation_node GENERATING_TASKS ''tasks''"

text \<open>
  \<open>generate_final_documents_node\<close>. Converting the record, rendering the documents
  and writing the files is the parameter \<open>render_and_write\<close>: it raises, or returns
  the rendered documents and the written file paths. The local \<open>state\<close> is rebound
  only by the assignment of the updated record, so until then the handler reads the
  input record. After that assignment the block logs \<open>state["workflow_id"]\<close> of the
  updated record; when the key is missing, the handler's own log line reads it again and
  the \<open>KeyError\<close> leaves the node.
\<close>

definition generate_final_documents_node ::
  "store \<Rightarrow> WorkflowGraphState \<Rightarrow> (WorkflowGraphState \<Rightarrow> pyerror + (pydict \<times> pydict))
     \<Rightarrow> string \<Rightarrow> pyerror + (store \<times> WorkflowGraphState)" where
  "generate_final_documents_node store state render_and_write now =
     (case getitem_str state ''workflow_id'' of
        Inl e \<Rightarrow> Inl e
      | Inr workflow_id \<Rightarrow>
          (let failed = (\<lambda>e. update_workflow_state store workflow_id
                                [(''status'', PyStatus FAILED),
                                 (''last_error'', PyStr (str_of_error e))] now)
           in case render_and_write state of
                Inl e \<Rightarrow> failed e
              | Inr (documents, written_files) \<Rightarrow>
                  (case update_workflow_state store workflow_id
                          [(''generated_files'', PyDict documents),
                           (''written_file_paths'', PyDict written_files),
                           (''status'', PyStatus COMPLETED)] now of
                     Inl e \<Rightarrow> failed e
                   | Inr (store', state') \<Rightarrow>
                       (case getitem state' ''workflow_id'' of
                          Inl e \<Rightarrow> Inl e
                        | Inr _ \<Rightarrow> Inr (store', state')))))"

text \<open>
  The routing predicate \<open>is_workflow_failed\<close> and the routers after the three
  generation nodes (\<open>_route_from_requirements\<close>, \<open>_route_from_design\<close>,
  \<open>_route_from_tasks\<close>), which share one shape. Both branches for a failed record
  log \<open>state["workflow_id"]\<close> before they return. The status of a record is a member
  of \<open>WorkflowStatus\<close>, as its type declares.
\<close>

definition is_workflow_failed :: "WorkflowGraphState \<Rightarrow> pyerror + bool" where
  "is_workflow_failed state =
     (case getitem state ''status'' of Inl e \<Rightarrow> Inl e | Inr v \<Rightarrow> Inr (v = PyStatus FAILED))"

text \<open>\<open>state["retry_count"] < 3\<close>\<close>

fun py_less :: "pyval \<Rightarrow> int \<Rightarrow> pyerror + bool" where
  "py_less (PyInt n) k = Inr (n < k)"
| "py_less (PyBool b) k = Inr ((if b then 1 else 0) < k)"
| "py_less v k = Inl (TypeError ''< not supported'')"

definition route_from_generation :: "WorkflowStatus \<Rightarrow> string \<Rightarrow> WorkflowGraphState \<Rightarrow> pyerror + string" where
  "route_from_generation awaiting retry state =
     (case is_workflow_failed state of
        Inl e \<Rightarrow> Inl e
      | Inr failed \<Rightarrow>
          if failed then
            (case getitem state ''retry_count'' of
               Inl e \<Rightarrow> Inl e
             | Inr retry_count \<Rightarrow>
                 (case py_less retry_count 3 of
                    Inl e \<Rightarrow> Inl e
                  | Inr again \<Rightarrow>
                      (case getitem state ''workflow_id'' of
                         Inl e \<Rightarrow> Inl e
                       | Inr _ \<Rightarrow> Inr (if again then retry else ''end''))))
          else (case getitem state ''status'' of
                  Inl e \<Rightarrow> Inl e
                | Inr v \<Rightarrow> Inr (if v = PyStatus awaiting then ''human_approval'' else ''end'')))"

definition route_from_requirements :: "WorkflowGraphState \<Rightarrow> pyerror + string" where
  "route_from_requirements =
     route_from_generation AWAITING_REQUIREMENTS_APPROVAL ''generate_requirements''"

definition route_from_design :: "WorkflowGraphState \<Rightarrow> pyerror + string" where
  "route_from_design = route_from_generation AWAITING_DESIGN_APPROVAL ''generate_design''"

definition route_from_tasks :: "WorkflowGraphState \<Rightarrow> pyerror + string" where
  "route_from_tasks = route_from_generation AWAITING_TASKS_APPROVAL ''generate_tasks''"

section \<open>Response extraction (llm\_utils.py)\<close>

datatype ParseMode = JSON | MARKDOWN | CONVERSATION

fun mode_value :: "ParseMode \<Rightarrow> string" where
  "mode_value JSON = ''json''"
| "mode_value MARKDOWN = ''markdown''"
| "mode_value CONVERSATION = ''conversation''"

text \<open>
  \<open>ParseResult.data\<close> holds the parsed object, the validated model instance, or the
  dict \<open>{"content": ..., "mode": "conversation"}\<close> of the fallback. The type
  \<open>'j\<close> is what \<open>json.loads\<close> returns and \<open>'m\<close> an instance of the validation
  model.
\<close>

datatype ('j, 'm) parse_data = ParsedData 'j | ValidatedData 'm | ConversationData string

record ('j, 'm) ParseResult =
  success :: bool
  data :: "('j, 'm) parse_data option"
  error :: "string option"
  mode :: "ParseMode option"
  raw_content :: "string option"

subsection \<open>Strings\<close>

text \<open>
  Strings are sequences of code points below 256. \<open>is_space\<close> is the whitespace of
  \<open>str.strip()\<close> and of \<open>\s\<close> in a \<open>str\<close> pattern on that range.
\<close>

definition is_space :: "char \<Rightarrow> bool" where
  "is_space c \<longleftrightarrow>
     c \<in> set [CHR 0x09, CHR 0x0A, CHR 0x0B, CHR 0x0C, CHR 0x0D,
               CHR 0x1C, CHR 0x1D, CHR 0x1E, CHR 0x1F, CHR 0x20, CHR 0x85, CHR 0xA0]"

definition strip :: "string \<Rightarrow> string" where
  "strip s = rev (dropWhile is_space (rev (dropWhile is_space s)))"

definition startswith :: "string \<Rightarrow> string \<Rightarrow> bool" where
  "startswith s p \<longleftrightarrow> take (length p) s = p"

definition endswith :: "string \<Rightarrow> string \<Rightarrow> bool" where
  "endswith s p \<longleftrightarrow> length p \<le> length s \<and> drop (length s - length p) s = p"

text \<open>\<open>marker in content\<close>\<close>

fun contains :: "string \<Rightarrow> string \<Rightarrow> bool" where
  "contains [] marker = (marker = [])"
| "contains (c # cs) marker = (startswith (c # cs) marker \<or> contains cs marker)"

text \<open>\<open>str(i)\<close> of an integer: decimal digits, most significant first.\<close>

definition decimal_digit :: "nat \<Rightarrow> char" where
  "decimal_digit d = ''0123456789'' ! d"

fun decimal_digits :: "nat \<Rightarrow> string \<Rightarrow> string" where
  "decimal_digits n acc =
     (if n < 10 then decimal_digit n # acc
      else decimal_digits (n div 10) (decimal_digit (n mod 10) # acc))"

definition str_of_int :: "int \<Rightarrow> string" where
  "str_of_int i =
     (if 0 \<le> i then decimal_digits (nat i) [] else CHR ''-'' # decimal_digits (nat (- i)) [])"

subsection \<open>The two patterns of \_extract\_json\_from\_response\<close>

text \<open>
  Pattern 1, searched with DOTALL and IGNORECASE: three backquotes, an optional
  \<open>json\<close>, whitespace, group 1 = an opening brace, as few characters as possible and a
  closing brace, whitespace, three backquotes.

  \<open>close_block acc s\<close> extends group 1 (\<open>acc\<close> so far) to the first closing brace that
  is followed by whitespace and the closing fence. \<open>block_body\<close> matches the pattern
  from its first \<open>\s*\<close> on, \<open>block_at\<close> the whole pattern at the start of a string
  (first with the tag consumed, then without, as the backtracking matcher does), and
  \<open>json_block_search\<close> is \<open>re.search\<close>: the match at the leftmost start.
\<close>

definition fence :: string where
  "fence = [CHR 0x60, CHR 0x60, CHR 0x60]"

definition has_json_tag :: "string \<Rightarrow> bool" where
  "has_json_tag s =
     (case s of
        a # b # c # d # _ \<Rightarrow>
          a \<in> set ''jJ'' \<and> b \<in> set ''sS'' \<and> c \<in> set ''oO'' \<and> d \<in> set ''nN''
      | _ \<Rightarrow> False)"

fun close_block :: "string \<Rightarrow> string \<Rightarrow> string option" where
  "close_block acc [] = None"
| "close_block acc (c # cs) =
     (if c = CHR ''}'' \<and> startswith (dropWhile is_space cs) fence then Some (acc @ [c])
      else close_block (acc @ [c]) cs)"

definition block_body :: "string \<Rightarrow> string option" where
  "block_body s =
     (case dropWhile is_space s of
        [] \<Rightarrow> None
      | c # cs \<Rightarrow> if c = CHR ''{'' then close_block [c] cs else None)"

definition block_at :: "string \<Rightarrow> string option" where
  "block_at s =
     (if startswith s fence then
        (let r = drop 3 s
         in case (if has_json_tag r then block_body (drop 4 r) else None) of
              Some g \<Rightarrow> Some g
            | None \<Rightarrow> block_body r)
      else None)"

fun json_block_search :: "string \<Rightarrow> string option" where
  "json_block_search [] = None"
| "json_block_search (c # cs) =
     (case block_at (c # cs) of Some g \<Rightarrow> Some g | None \<Rightarrow> json_block_search cs)"

text \<open>
  Pattern 3, \<^verbatim>\<open>(\{[^{}]*(?:\{[^{}]*\}[^{}]*)*\})\<close>: an opening brace, then characters
  other than braces and brace pairs that hold no brace, then a closing brace.

  \<open>object_at inner acc s\<close> continues a match after its opening brace; \<open>inner\<close> says
  that a nested pair is open. An opening brace inside a nested pair ends the attempt:
  every character decides the only way the pattern can go on, so backtracking finds no
  other match from the same start. \<open>findall_objects\<close> is \<open>re.findall\<close>: leftmost
  matches that do not overlap; \<open>skip\<close> counts the characters of the last match still
  to pass.
\<close>

fun object_at :: "bool \<Rightarrow> string \<Rightarrow> string \<Rightarrow> string option" where
  "object_at inner acc [] = None"
| "object_at inner acc (c # cs) =
     (if c = CHR ''{'' then (if inner then None else object_at True (acc @ [c]) cs)
      else if c = CHR ''}'' then
        (if inner then object_at False (acc @ [c]) cs else Some (acc @ [c]))
      else object_at inner (acc @ [c]) cs)"

fun findall_objects :: "nat \<Rightarrow> string \<Rightarrow> string list" where
  "findall_objects skip [] = []"
| "findall_objects (Suc skip) (c # cs) = findall_objects skip cs"
| "findall_objects 0 (c # cs) =
     (if c = CHR ''{'' then
        (case object_at False [c] cs of
           Some m \<Rightarrow> m # findall_objects (length m - 1) cs
         | None \<Rightarrow> findall_objects 0 cs)
      else findall_objects 0 cs)"

definition markers :: "string list" where
  "markers = [''#'', ''##'', ''###'', fence, ''*'', ''-'', ''|'']"

text \<open>
  \<open>_extract_json_from_response\<close>. \<open>json_loads\<close> is \<open>json.loads\<close>: \<open>Inl\<close> is the
  message of its \<open>JSONDecodeError\<close>.
\<close>

definition extract_json_from_response ::
  "(string \<Rightarrow> string + 'j) \<Rightarrow> string \<Rightarrow> string \<times> ParseMode" where
  "extract_json_from_response json_loads content0 =
     (let content = strip content0
      in case json_block_search content of
           Some g \<Rightarrow> (strip g, JSON)
         | None \<Rightarrow>
             if startswith content ''{'' \<and> endswith content ''}'' then (content, JSON)
             else (case find (\<lambda>m. \<not> isl (json_loads m)) (findall_objects 0 content) of
                     Some m \<Rightarrow> (m, JSON)
                   | None \<Rightarrow>
                       if list_ex (contains content) markers then (content, MARKDOWN)
                       else (content, CONVERSATION)))"

subsection \<open>The processor\<close>

text \<open>
  A validation model is its class name and its constructor applied to the parsed
  object: an instance, a \<open>ValidationError\<close> with its text, or another exception. The
  cache key \<open>f"{hash(content)}_{model_name}"\<close> is the pair of its two parts; \<open>hash\<close>
  is Python's string hash.
\<close>

datatype 'm validation = Valid 'm | ValidationError string | Raised pyerror

type_synonym ('j, 'm) validation_model = "string \<times> ('j \<Rightarrow> 'm validation)"

record ('j, 'm) LLMResponseProcessor =
  max_retries :: int
  cache_enabled :: bool
  response_cache :: "(int \<times> string) \<rightharpoonup> ('j, 'm) ParseResult"

definition get_cache_key ::
  "(string \<Rightarrow> int) \<Rightarrow> string \<Rightarrow> ('j, 'm) validation_model option \<Rightarrow> int \<times> string" where
  "get_cache_key hash content validation_model =
     (hash content, case validation_model of None \<Rightarrow> ''none'' | Some (name, _) \<Rightarrow> name)"

definition parse_failure :: "string \<Rightarrow> ParseMode \<Rightarrow> string \<Rightarrow> ('j, 'm) ParseResult" where
  "parse_failure msg m content =
     \<lparr>success = False, data = None, error = Some msg, mode = Some m, raw_content = Some content\<rparr>"

definition parse_success :: "('j, 'm) parse_data \<Rightarrow> string \<Rightarrow> ('j, 'm) ParseResult" where
  "parse_success d content =
     \<lparr>success = True, data = Some d, error = None, mode = Some JSON, raw_content = Some content\<rparr>"

definition parse_json_response ::
  "(string \<Rightarrow> int) \<Rightarrow> (string \<Rightarrow> string + 'j) \<Rightarrow> ('j, 'm) LLMResponseProcessor \<Rightarrow> string
     \<Rightarrow> ('j, 'm) validation_model option \<Rightarrow> bool
     \<Rightarrow> pyerror + (('j, 'm) ParseResult \<times> ('j, 'm) LLMResponseProcessor)" where
  "parse_json_response hash json_loads self content validation_model strict =
     (let cache_key = get_cache_key hash content validation_model
      in case (if cache_enabled self then response_cache self cache_key else None) of
           Some cached \<Rightarrow> Inr (cached, self)
         | None \<Rightarrow>
             (case extract_json_from_response json_loads content of
                (json_content, detected_mode) \<Rightarrow>
                  if detected_mode \<noteq> JSON then
                    Inr (parse_failure
                           (''No JSON content detected, found '' @ mode_value detected_mode)
                           detected_mode content, self)
                  else
                    (case json_loads json_content of
                       Inl msg \<Rightarrow>
                         Inr (parse_failure (''JSON parsing failed: '' @ msg) JSON content, self)
                     | Inr parsed_data \<Rightarrow>
                         (case (case validation_model of
                                  None \<Rightarrow> Inr (parse_success (ParsedData parsed_data) content)
                                | Some (name, validate) \<Rightarrow>
                                    (case validate parsed_data of
                                       Valid validated_data \<Rightarrow>
                                         Inr (parse_success (ValidatedData validated_data) content)
                                     | ValidationError msg \<Rightarrow>
                                         Inr (if strict then
                                                parse_failure (''Validation failed: '' @ msg)
                                                  JSON content
                                              else parse_success (ParsedData parsed_data) content)
                                     | Raised e \<Rightarrow> Inl e)) of
                            Inl e \<Rightarrow> Inl e
                          | Inr result \<Rightarrow>
                              Inr (result,
                                   if cache_enabled self then
                                     self\<lparr>response_cache := (response_cache self)(cache_key \<mapsto> result)\<rparr>
                                   else self)))))"

subsection \<open>The retry loop\<close>

datatype LLMMessage = LLMMessage string string

text \<open>
  What a run of the loop does to the outside: it invokes the model with a message list
  and it sleeps for a number of seconds.
\<close>

datatype event = Invoked "LLMMessage list" | Slept int

fun is_invoked :: "event \<Rightarrow> bool" where
  "is_invoked (Invoked msgs) = True"
| "is_invoked (Slept seconds) = False"

definition default_retry_instruction :: string where
  "default_retry_instruction =
     ''The previous response could not be parsed as valid JSON. '' @
     ''Please provide your response as valid JSON format only, '' @
     ''enclosed in '' @ fence @ ''json'' @ fence @ '' markdown code blocks.''"

definition str_of_optional :: "string option \<Rightarrow> string" where
  "str_of_optional x = (case x of None \<Rightarrow> ''None'' | Some s \<Rightarrow> s)"

definition all_attempts_failed :: "int \<Rightarrow> string option \<Rightarrow> ('j, 'm) ParseResult" where
  "all_attempts_failed retries last_error =
     \<lparr>success = False, data = None,
      error = Some (''Failed after '' @ str_of_int (retries + 1) @ '' attempts. Last error: ''
                     @ str_of_optional last_error),
      mode = Some JSON, raw_content = None\<rparr>"

definition conversation_fallback :: "string \<Rightarrow> ('j, 'm) ParseResult" where
  "conversation_fallback content =
     \<lparr>success = True, data = Some (ConversationData content), error = None,
      mode = Some CONVERSATION, raw_content = Some content\<rparr>"

text \<open>
  The body of \<open>for attempt in range(self.max_retries + 1)\<close>, over the attempts still
  to run. \<open>generate k msgs\<close> is the \<open>k\<close>-th invocation of \<open>llm_client.generate\<close> in
  this run: it raises (\<open>Inl\<close>) or returns the content of the response. \<open>break\<close> and
  the end of the range both reach the statement after the loop.
\<close>

fun retry_attempts ::
  "(string \<Rightarrow> int) \<Rightarrow> (string \<Rightarrow> string + 'j) \<Rightarrow> (nat \<Rightarrow> LLMMessage list \<Rightarrow> pyerror + string)
     \<Rightarrow> LLMMessage list \<Rightarrow> ('j, 'm) validation_model option \<Rightarrow> string option
     \<Rightarrow> int list \<Rightarrow> ('j, 'm) LLMResponseProcessor \<Rightarrow> event list \<Rightarrow> string option
     \<Rightarrow> ('j, 'm) ParseResult \<times> ('j, 'm) LLMResponseProcessor \<times> event list" where
  "retry_attempts hash json_loads generate messages validation_model retry_prompt
       [] self trace last_error =
     (all_attempts_failed (max_retries self) last_error, self, trace)"
| "retry_attempts hash json_loads generate messages validation_model retry_prompt
       (attempt # rest) self trace last_error =
     (let retry_instruction =
            (case retry_prompt of
               None \<Rightarrow> default_retry_instruction
             | Some p \<Rightarrow> if p \<noteq> [] then p else default_retry_instruction);
          msgs = (if attempt = 0 then messages
                  else messages @ [LLMMessage ''user'' retry_instruction]);
          trace1 = trace @ [Invoked msgs]
      in case (case generate (length (filter is_invoked trace)) msgs of
                 Inl e \<Rightarrow> Inl e
               | Inr content \<Rightarrow>
                   (case parse_json_response hash json_loads self content validation_model True of
                      Inl e \<Rightarrow> Inl e
                    | Inr (parse_result, self1) \<Rightarrow> Inr (content, parse_result, self1))) of
             Inr (content, parse_result, self1) \<Rightarrow>
               if success parse_result then (parse_result, self1, trace1)
               else if attempt = max_retries self
                       \<and> (mode parse_result = Some CONVERSATION \<or> mode parse_result = Some MARKDOWN)
               then (conversation_fallback content, self1, trace1)
               else retry_attempts hash json_loads generate messages validation_model retry_prompt
                      rest self1 trace1 (error parse_result)
           | Inl e \<Rightarrow>
               if attempt = max_retries self then
                 (all_attempts_failed (max_retries self) (Some (str_of_error e)), self, trace1)
               else retry_attempts hash json_loads generate messages validation_model retry_prompt
                      rest self (trace1 @ [Slept (2 ^ nat attempt)]) (Some (str_of_error e)))"

definition parse_with_retry ::
  "(string \<Rightarrow> int) \<Rightarrow> (string \<Rightarrow> string + 'j) \<Rightarrow> ('j, 'm) LLMResponseProcessor
     \<Rightarrow> (nat \<Rightarrow> LLMMessage list \<Rightarrow> pyerror + string)
     \<Rightarrow> LLMMessage list \<Rightarrow> ('j, 'm) validation_model option \<Rightarrow> string option
     \<Rightarrow> ('j, 'm) ParseResult \<times> ('j, 'm) LLMResponseProcessor \<times> event list" where
  "parse_with_retry hash json_loads self generate messages validation_model retry_prompt =
     retry_attempts hash json_loads generate messages validation_model retry_prompt
       [0..max_retries self] self [] None"

text \<open>
  \<open>generate_and_parse\<close> builds a fresh processor (cache enabled and empty) and
  returns the result of \<open>parse_with_retry\<close>; the trace of the run is kept beside it.
\<close>

definition generate_and_parse ::
  "(string \<Rightarrow> int) \<Rightarrow> (string \<Rightarrow> string + 'j) \<Rightarrow> LLMMessage list
     \<Rightarrow> ('j, 'm) validation_model option \<Rightarrow> (nat \<Rightarrow> LLMMessage list \<Rightarrow> pyerror + string) \<Rightarrow> int
     \<Rightarrow> ('j, 'm) ParseResult \<times> event list" where
  "generate_and_parse hash json_loads messages validation_model generate retries =
     (let processor = \<lparr>max_retries = retries, cache_enabled = True, response_cache = Map.empty\<rparr>
      in case parse_with_retry hash json_loads processor generate messages validation_model None of
           (result, _, trace) \<Rightarrow> (result, trace))"

section \<open>Properties of records and stores\<close>

text \<open>The phase that an awaiting-approval status waits for.\<close>

fun awaiting_phase :: "WorkflowStatus \<Rightarrow> string option" where
  "awaiting_phase AWAITING_REQUIREMENTS_APPROVAL = Some ''requirements''"
| "awaiting_phase AWAITING_DESIGN_APPROVAL = Some ''design''"
| "awaiting_phase AWAITING_TASKS_APPROVAL = Some ''tasks''"
| "awaiting_phase status = None"

text \<open>
  The consistency rule for \<open>pending_approval\<close>: it is not \<open>None\<close> exactly when the
  status is an awaiting-approval status, and then it names the phase of that status.
\<close>

definition pending_approval_consistent :: "WorkflowGraphState \<Rightarrow> bool" where
  "pending_approval_consistent state =
     (case map_of state ''status'' of
        Some (PyStatus status) \<Rightarrow>
          (case map_of state ''pending_approval'' of
             Some pending \<Rightarrow>
               (pending \<noteq> PyNone \<longleftrightarrow> awaiting_phase status \<noteq> None)
               \<and> (pending \<noteq> PyNone \<longrightarrow> Some pending = map_option PyStr (awaiting_phase status))
           | None \<Rightarrow> False)
      | _ \<Rightarrow> False)"

text \<open>
  Stores built by the state manager's operations, with the approval gate called as
  the HTTP route calls it (approve, revise or reject) and \<open>transition_to_phase\<close> called
  with a status that is not an awaiting-approval status.
\<close>

inductive gate_reachable :: "store \<Rightarrow> bool" where
  start: "gate_reachable Map.empty"
| create: "gate_reachable store \<Longrightarrow>
     gate_reachable (fst (create_workflow_state store workflow_id feature_name description
                            llm_provider model_name research_enabled now))"
| pending: "gate_reachable store \<Longrightarrow>
     set_pending_approval store workflow_id phase content now = Inr (store', state') \<Longrightarrow>
     gate_reachable store'"
| approval: "gate_reachable store \<Longrightarrow>
     action \<in> {APPROVE, REQUEST_REVISION, REJECT} \<Longrightarrow>
     handle_user_approval store workflow_id action feedback now = Inr (store', state') \<Longrightarrow>
     gate_reachable store'"
| transition: "gate_reachable store \<Longrightarrow>
     awaiting_phase status = None \<Longrightarrow>
     transition_to_phase store workflow_id phase status now = Inr (store', state') \<Longrightarrow>
     gate_reachable store'"
| reset: "gate_reachable store \<Longrightarrow>
     reset_workflow store workflow_id now = Inr (store', state') \<Longrightarrow>
     gate_reachable store'"

text \<open>
  Stores built by the only three places that write \<open>_active_workflows\<close> or a record
  in it: creation, \<open>update_workflow_state\<close> with any updates, and cleanup.
\<close>

inductive store_reachable :: "store \<Rightarrow> bool" where
  empty: "store_reachable Map.empty"
| created: "store_reachable store \<Longrightarrow>
     store_reachable (fst (create_workflow_state store workflow_id feature_name description
                             llm_provider model_name research_enabled now))"
| updated: "store_reachable store \<Longrightarrow>
     update_workflow_state store workflow_id updates now = Inr (store', state') \<Longrightarrow>
     store_reachable store'"
| cleaned: "store_reachable store \<Longrightarrow> store_reachable (fst (cleanup_workflow store workflow_id))"

text \<open>Reading the outcome of an operation: the new store, and a field of the returned record.\<close>

definition result_store :: "pyerror + (store \<times> WorkflowGraphState) \<Rightarrow> store" where
  "result_store r = (case r of Inl e \<Rightarrow> Map.empty | Inr (store, state) \<Rightarrow> store)"

definition result_field :: "pyerror + (store \<times> WorkflowGraphState) \<Rightarrow> string \<Rightarrow> pyval option" where
  "result_field r key = (case r of Inl e \<Rightarrow> None | Inr (store, state) \<Rightarrow> map_of state key)"



section \<open>Example data\<close>

definition demo_clock :: "nat \<Rightarrow> string" where
  "demo_clock k = ''2024-05-01T10:00:00''"

definition demo_created :: store where
  "demo_created =
     fst (create_workflow_state Map.empty ''wf-1'' ''Login'' ''Users can log in with a password''
            ''openai'' ''gpt-4-turbo-preview'' True ''2024-05-01T09:00:00'')"

definition demo_input :: WorkflowGraphState where
  "demo_input =
     snd (create_workflow_state Map.empty ''wf-1'' ''Login'' ''Users can log in with a password''
            ''openai'' ''gpt-4-turbo-preview'' True ''2024-05-01T09:00:00'')"

definition demo_awaiting :: store where
  "demo_awaiting =
     result_store (set_pending_approval demo_created ''wf-1'' ''requirements''
                     ''## Functional Requirements'' ''2024-05-01T09:01:00'')"

definition demo_awaiting_tasks :: store where
  "demo_awaiting_tasks =
     result_store (set_pending_approval demo_created ''wf-1'' ''tasks''
                     ''### Phase 1: Setup'' ''2024-05-01T09:03:00'')"

definition demo_rate_limited :: "WorkflowGraphState \<Rightarrow> pyerror + string" where
  "demo_rate_limited state = Inl (RateLimitError ''OpenAI rate limit exceeded: 429'')"

definition demo_answer :: "WorkflowGraphState \<Rightarrow> pyerror + string" where
  "demo_answer state = Inr ''## Functional Requirements''"

definition demo_failed_once :: store where
  "demo_failed_once =
     result_store (generate_requirements_node demo_created demo_input demo_rate_limited demo_clock)"

definition demo_render :: "WorkflowGraphState \<Rightarrow> pyerror + (pydict \<times> pydict)" where
  "demo_render state =
     Inr ([(''requirements.md'', PyStr ''# Requirements'')],
          [(''requirements.md'', PyStr ''/specs/login/requirements.md'')])"

definition demo_render_fails :: "WorkflowGraphState \<Rightarrow> pyerror + (pydict \<times> pydict)" where
  "demo_render_fails state = Inl (ValueError ''Template requirements.md.j2 not found'')"

definition demo_messages :: "LLMMessage list" where
  "demo_messages = [LLMMessage ''system'' ''Answer in JSON.'', LLMMessage ''user'' ''Describe login.'']"

definition demo_hash :: "string \<Rightarrow> int" where
  "demo_hash s = int (length s)"

definition demo_json_loads :: "string \<Rightarrow> string + string" where
  "demo_json_loads s =
     (if s \<in> set [''{\"a\":{\"b\":{\"c\":1}}}'', ''{\"b\":{\"c\":1}}'', ''{\"a\":{\"b\":1}}'',
                     ''{\"a\":1}'', ''{\"b\":2}'']
      then Inr s else Inl ''Expecting value'')"

definition demo_markdown_model :: "nat \<Rightarrow> LLMMessage list \<Rightarrow> pyerror + string" where
  "demo_markdown_model k msgs = Inr ''# Login - users sign in''"

definition demo_failing_model :: "nat \<Rightarrow> LLMMessage list \<Rightarrow> pyerror + string" where
  "demo_failing_model k msgs = Inl (RateLimitError ''OpenAI rate limit exceeded: 429'')"

definition demo_cancelled :: store where
  "demo_cancelled =
     result_store (handle_user_approval demo_awaiting ''wf-1'' CANCEL None ''2024-05-01T09:02:00'')"

section \<open>Verification\<close>

subsection \<open>Updating a record\<close>

lemma update_fields_None:
  "map_of state key = None \<Longrightarrow> map_of (update_fields updates state) key = None"
proof (induction updates arbitrary: state)
  case Nil
  then show ?case by simp
next
  case (Cons u updates)
  obtain k v where u: "u = (k, v)" by (cases u)
  have "map_of (if map_of state k \<noteq> None then AList.update k v state else state) key = None"
    using Cons.prems by (auto simp: update_conv')
  from Cons.IH [OF this] show ?case by (simp add: u)
qed

lemma update_fields_Some:
  "map_of state key \<noteq> None \<Longrightarrow>
   map_of (update_fields updates state) key =
     (case map_of (rev updates) key of None \<Rightarrow> map_of state key | Some v \<Rightarrow> Some v)"
proof (induction updates arbitrary: state)
  case Nil
  then show ?case by simp
next
  case (Cons u updates)
  obtain k v where u: "u = (k, v)" by (cases u)
  show ?case
  proof (cases "map_of state k = None")
    case True
    then have "k \<noteq> key" using Cons.prems by auto
    then show ?thesis using True Cons u
      by (simp add: map_add_def split: option.splits)
  next
    case False
    have "map_of (AList.update k v state) key \<noteq> None"
      using Cons.prems by (simp add: update_conv')
    from Cons.IH [OF this] show ?thesis using False u
      by (auto simp: update_conv' map_add_def split: option.splits)
  qed
qed

lemma map_of_rev_distinct:
  "distinct (map fst xs) \<Longrightarrow> map_of (rev xs) = map_of xs"
  by (subst map_of_inject_set) (simp_all add: rev_map [symmetric])

lemma map_of_update_fields:
  "distinct (map fst updates) \<Longrightarrow>
   map_of (update_fields updates state) key =
     (if map_of state key = None then None
      else case map_of updates key of None \<Rightarrow> map_of state key | Some v \<Rightarrow> Some v)"
  by (simp add: update_fields_None update_fields_Some map_of_rev_distinct)

lemma update_workflow_state_Some:
  "store workflow_id = Some state \<Longrightarrow>
   update_workflow_state store workflow_id updates now =
     Inr (store(workflow_id \<mapsto> AList.update ''updated_at'' (PyStr now) (update_fields updates state)),
          AList.update ''updated_at'' (PyStr now) (update_fields updates state))"
  by (simp add: update_workflow_state_def Let_def)

lemma update_workflow_state_None:
  "store workflow_id = None \<Longrightarrow>
   update_workflow_state store workflow_id updates now = Inl (not_found workflow_id)"
  by (simp add: update_workflow_state_def)

text \<open>What an update does to a key other than the timestamp.\<close>

lemma update_workflow_state_field:
  assumes "update_workflow_state store workflow_id updates now = Inr (store', state')"
    and "distinct (map fst updates)" and "key \<noteq> ''updated_at''"
  shows "\<exists>state. store workflow_id = Some state \<and> store' = store(workflow_id \<mapsto> state') \<and>
           map_of state' key =
             (if map_of state key = None then None
              else case map_of updates key of None \<Rightarrow> map_of state key | Some v \<Rightarrow> Some v)"
proof (cases "store workflow_id")
  case None
  then show ?thesis using assms(1) by (simp add: update_workflow_state_None)
next
  case (Some state)
  then show ?thesis using assms
    by (auto simp: update_workflow_state_Some update_conv' map_of_update_fields)
qed

lemma update_workflow_state_InrD:
  assumes "update_workflow_state store workflow_id updates now = Inr (store', state')"
  shows "store workflow_id \<noteq> None \<and> store' = store(workflow_id \<mapsto> state') \<and> state' \<noteq> []"
  using assms by (cases "store workflow_id") (auto simp: update_workflow_state_def Let_def)

declare update_fields.simps [simp del]

lemma map_of_updated:
  "distinct (map fst updates) \<Longrightarrow>
   map_of (AList.update ''updated_at'' (PyStr now) (update_fields updates state)) key =
     (if key = ''updated_at'' then Some (PyStr now)
      else if map_of state key = None then None
      else case map_of updates key of None \<Rightarrow> map_of state key | Some v \<Rightarrow> Some v)"
  by (simp add: update_conv' map_of_update_fields)

lemma update_keeps_absent:
  assumes "update_workflow_state store workflow_id updates now = Inr (store', state')"
    and "store workflow_id = Some state" and "map_of state key = None" and "key \<noteq> ''updated_at''"
  shows "map_of state' key = None"
  using assms by (auto simp: update_workflow_state_Some update_conv' update_fields_None)

subsection \<open>Evaluating the examples\<close>

lemmas manager_eval =
  result_store_def result_field_def create_workflow_state_def initial_state_def
  set_pending_approval_def status_map_def update_workflow_state_def update_fields.simps Let_def
  handle_user_approval_def get_workflow_state_def approval_updates_def py_optional_def
  getitem_def getitem_str_def demo_created_def demo_input_def demo_awaiting_def

lemmas node_eval =
  generation_node_def generate_requirements_node_def generate_design_node_def
  generate_tasks_node_def generation_attempt_def generation_failed_def
  add_conversation_message_def demo_clock_def demo_rate_limited_def

lemmas extract_eval =
  extract_json_from_response_def strip_def is_space_def startswith_def endswith_def fence_def
  block_at_def block_body_def has_json_tag_def markers_def Let_def

subsection \<open>The approval gate\<close>

lemma approved_field_neq:
  "k \<noteq> [] \<Longrightarrow> last k \<noteq> CHR ''d'' \<Longrightarrow> p @ ''_approved'' \<noteq> k"
  by (metis last_appendR last.simps list.distinct(1))

lemma distinct_approval_updates:
  "distinct (map fst (approval_updates p a fb))"
  by (simp add: approval_updates_def Let_def distinct_update)

lemma approval_updates_pending:
  "map_of (approval_updates p a fb) ''pending_approval'' = Some PyNone"
  using approved_field_neq [of "''pending_approval''" p]
  by (simp add: approval_updates_def Let_def update_conv')

lemma approval_updates_action:
  "map_of (approval_updates p a fb) ''last_user_action'' = Some (PyAction a)"
  using approved_field_neq [of "''last_user_action''" p]
  by (simp add: approval_updates_def Let_def update_conv')

lemma approval_updates_feedback:
  "map_of (approval_updates p a fb) ''user_feedback'' = Some fb"
  using approved_field_neq [of "''user_feedback''" p]
  by (simp add: approval_updates_def Let_def update_conv')

lemma approval_updates_other_action:
  "a \<notin> {APPROVE, REQUEST_REVISION, REJECT} \<Longrightarrow>
   approval_updates p a fb =
     [(''last_user_action'', PyAction a), (''user_feedback'', fb), (''pending_approval'', PyNone)]"
  by (simp add: approval_updates_def)

lemma handle_user_approval_InrD:
  assumes "handle_user_approval store workflow_id action feedback now = Inr (store', state')"
  shows "\<exists>state p. store workflow_id = Some state \<and> p \<noteq> [] \<and>
           map_of state ''pending_approval'' = Some (PyStr p) \<and>
           update_workflow_state store workflow_id
             (approval_updates p action (py_optional feedback)) now = Inr (store', state')"
  using assms
  by (auto simp: handle_user_approval_def get_workflow_state_def
           split: option.splits if_splits pyval.splits)

lemma handle_user_approval_pending:
  assumes "store workflow_id = Some state" and "map_of state ''pending_approval'' = Some (PyStr p)"
    and "p \<noteq> []"
  shows "handle_user_approval store workflow_id action feedback now =
           update_workflow_state store workflow_id (approval_updates p action (py_optional feedback)) now"
  using assms by (auto simp: handle_user_approval_def get_workflow_state_def)

text \<open>
  Claim C8. When an approve action succeeds, the returned record has
  \<open>pending_approval = None\<close>, and a second approve on the resulting store, with no
  generation in between, raises the error "No pending approval for workflow ...".
\<close>

theorem approve_twice_fails:
  assumes "handle_user_approval store workflow_id APPROVE feedback now = Inr (store', state')"
  shows "map_of state' ''pending_approval'' = Some PyNone \<and>
         handle_user_approval store' workflow_id APPROVE feedback' now' = Inl (no_pending workflow_id)"
proof -
  from handle_user_approval_InrD [OF assms] obtain state p where
    pend: "map_of state ''pending_approval'' = Some (PyStr p)"
    and upd: "update_workflow_state store workflow_id
                (approval_updates p APPROVE (py_optional feedback)) now = Inr (store', state')"
    and st: "store workflow_id = Some state"
    by blast
  from update_workflow_state_field [OF upd distinct_approval_updates, of "''pending_approval''"]
  have cleared: "map_of state' ''pending_approval'' = Some PyNone"
    by (simp add: st pend approval_updates_pending)
  from update_workflow_state_InrD [OF upd]
  have "store' workflow_id = Some state'" and "state' \<noteq> []" by simp_all
  with cleared show ?thesis
    by (simp add: handle_user_approval_def get_workflow_state_def)
qed

theorem approve_twice_fails_witness:
  "result_field (handle_user_approval demo_awaiting ''wf-1'' APPROVE None ''2024-05-01T09:02:00'')
     ''pending_approval'' = Some PyNone \<and>
   handle_user_approval
     (result_store (handle_user_approval demo_awaiting ''wf-1'' APPROVE None ''2024-05-01T09:02:00''))
     ''wf-1'' APPROVE None ''2024-05-01T09:02:30'' = Inl (no_pending ''wf-1'')"
proof -
  obtain store' state' where
    h: "handle_user_approval demo_awaiting ''wf-1'' APPROVE None ''2024-05-01T09:02:00''
          = Inr (store', state')"
    by (simp add: manager_eval)
  from approve_twice_fails [OF h] show ?thesis
    by (simp add: h result_store_def result_field_def)
qed

subsection \<open>Actions that match no branch\<close>

lemma consistent_iff:
  "pending_approval_consistent state \<longleftrightarrow>
     (\<exists>status. map_of state ''status'' = Some (PyStatus status) \<and>
        map_of state ''pending_approval'' = Some (py_optional (awaiting_phase status)))"
  unfolding pending_approval_consistent_def
  by (auto simp: py_optional_def split: option.splits pyval.splits)

lemma awaiting_phase_SomeD:
  "awaiting_phase status = Some p \<Longrightarrow> p \<in> {''requirements'', ''design'', ''tasks''}"
  by (cases status) auto

lemma consistent_pendingD:
  assumes "pending_approval_consistent state" and "map_of state ''pending_approval'' = Some (PyStr p)"
  shows "\<exists>status. map_of state ''status'' = Some (PyStatus status) \<and> awaiting_phase status = Some p"
  using assms by (auto simp: consistent_iff py_optional_def split: option.splits)

text \<open>
  Claim C10. On a record with a pending approval, an action other than approve,
  request\_revision and reject (start\_generation, cancel, retry) does not fail: the
  gate returns the updated record, in which \<open>pending_approval\<close> is \<open>None\<close>, the
  action and the feedback are recorded, and status and current phase are what they were,
  the status still being the awaiting-approval status of the phase that was pending.
\<close>

theorem unknown_action_consumes_pending:
  assumes "store workflow_id = Some state"
    and "pending_approval_consistent state"
    and "map_of state ''pending_approval'' = Some (PyStr phase)"
    and "map_of state ''last_user_action'' \<noteq> None"
    and "map_of state ''user_feedback'' \<noteq> None"
    and "action \<notin> {APPROVE, REQUEST_REVISION, REJECT}"
  shows "\<exists>state' status.
           handle_user_approval store workflow_id action feedback now =
             Inr (store(workflow_id \<mapsto> state'), state') \<and>
           map_of state' ''pending_approval'' = Some PyNone \<and>
           map_of state' ''last_user_action'' = Some (PyAction action) \<and>
           map_of state' ''user_feedback'' = Some (py_optional feedback) \<and>
           map_of state' ''status'' = Some (PyStatus status) \<and>
           map_of state ''status'' = Some (PyStatus status) \<and>
           awaiting_phase status = Some phase \<and>
           map_of state' ''current_phase'' = map_of state ''current_phase''"
proof -
  from consistent_pendingD [OF assms(2,3)] obtain status where
    status: "map_of state ''status'' = Some (PyStatus status)" "awaiting_phase status = Some phase"
    by blast
  then have "phase \<noteq> []" using awaiting_phase_SomeD by fastforce
  with assms(1,3) have h: "handle_user_approval store workflow_id action feedback now =
             update_workflow_state store workflow_id
               [(''last_user_action'', PyAction action), (''user_feedback'', py_optional feedback),
                (''pending_approval'', PyNone)] now"
    by (simp add: handle_user_approval_pending approval_updates_other_action [OF assms(6)])
  let ?state' = "AList.update ''updated_at'' (PyStr now)
                   (update_fields [(''last_user_action'', PyAction action),
                      (''user_feedback'', py_optional feedback), (''pending_approval'', PyNone)] state)"
  have "handle_user_approval store workflow_id action feedback now =
          Inr (store(workflow_id \<mapsto> ?state'), ?state')"
    using assms(1) by (simp add: h update_workflow_state_Some)
  moreover have "map_of ?state' ''pending_approval'' = Some PyNone"
    by (simp add: update_conv' map_of_update_fields assms(3))
  moreover have "map_of ?state' ''last_user_action'' = Some (PyAction action)"
    using assms(4) by (simp add: update_conv' map_of_update_fields)
  moreover have "map_of ?state' ''user_feedback'' = Some (py_optional feedback)"
    using assms(5) by (simp add: update_conv' map_of_update_fields)
  moreover have "map_of ?state' ''status'' = Some (PyStatus status)"
    by (simp add: update_conv' map_of_update_fields status)
  moreover have "map_of ?state' ''current_phase'' = map_of state ''current_phase''"
    by (simp add: update_conv' map_of_update_fields)
  ultimately show ?thesis using status by blast
qed

theorem unknown_action_consumes_pending_witness:
  "result_field (handle_user_approval demo_awaiting ''wf-1'' CANCEL (Some ''stop'') ''2024-05-01T09:02:00'')
     ''pending_approval'' = Some PyNone \<and>
   result_field (handle_user_approval demo_awaiting ''wf-1'' CANCEL (Some ''stop'') ''2024-05-01T09:02:00'')
     ''status'' = Some (PyStatus AWAITING_REQUIREMENTS_APPROVAL) \<and>
   result_field (handle_user_approval demo_awaiting ''wf-1'' CANCEL (Some ''stop'') ''2024-05-01T09:02:00'')
     ''last_user_action'' = Some (PyAction CANCEL)"
proof -
  obtain state where st: "demo_awaiting ''wf-1'' = Some state"
    and p: "map_of state ''pending_approval'' = Some (PyStr ''requirements'')"
    and c: "pending_approval_consistent state"
    and k: "map_of state ''last_user_action'' \<noteq> None" "map_of state ''user_feedback'' \<noteq> None"
    and s: "map_of state ''status'' = Some (PyStatus AWAITING_REQUIREMENTS_APPROVAL)"
    by (simp add: manager_eval pending_approval_consistent_def)
  have a: "CANCEL \<notin> {APPROVE, REQUEST_REVISION, REJECT}" by simp
  from unknown_action_consumes_pending
         [where store = demo_awaiting and workflow_id = "''wf-1''" and state = state
            and phase = "''requirements''" and action = CANCEL and feedback = "Some ''stop''"
            and now = "''2024-05-01T09:02:00''", OF st c p k a]
  show ?thesis using s by (auto simp: result_field_def)
qed

subsection \<open>The consistency of pending approvals\<close>

lemma consistent_update:
  assumes upd: "update_workflow_state store wid0 updates now = Inr (store', state')"
    and d: "distinct (map fst updates)"
    and IH: "\<And>wid st. store wid = Some st \<Longrightarrow> pending_approval_consistent st"
    and s: "map_of updates ''status'' = Some (PyStatus status)"
    and p: "map_of updates ''pending_approval'' = Some (py_optional (awaiting_phase status))"
    and st: "store' wid = Some st"
  shows "pending_approval_consistent st"
proof (cases "wid = wid0")
  case False
  with update_workflow_state_InrD [OF upd] st IH show ?thesis by simp
next
  case True
  from update_workflow_state_field [OF upd d, of "''status''"]
       update_workflow_state_field [OF upd d, of "''pending_approval''"]
  obtain old where old: "store wid0 = Some old" and store': "store' = store(wid0 \<mapsto> state')"
    and f1: "map_of state' ''status'' =
               (if map_of old ''status'' = None then None else Some (PyStatus status))"
    and f2: "map_of state' ''pending_approval'' =
               (if map_of old ''pending_approval'' = None then None
                else Some (py_optional (awaiting_phase status)))"
    by (auto simp: s p)
  from IH [OF old] have "map_of old ''status'' \<noteq> None" "map_of old ''pending_approval'' \<noteq> None"
    by (auto simp: consistent_iff)
  with f1 f2 have "pending_approval_consistent state'" by (auto simp: consistent_iff)
  with True st store' show ?thesis by simp
qed

lemma status_map_SomeD:
  "map_of status_map phase = Some awaiting \<Longrightarrow> awaiting_phase awaiting = Some phase"
  by (auto simp: status_map_def split: if_splits)

lemma consistent_initial_state:
  "pending_approval_consistent
     (initial_state workflow_id feature_name description llm_provider model_name research_enabled now)"
  by (simp add: consistent_iff initial_state_def py_optional_def)

lemma approval_updates_status:
  assumes "p \<in> {''requirements'', ''design'', ''tasks''}"
    and "a \<in> {APPROVE, REQUEST_REVISION, REJECT}"
  shows "\<exists>status. awaiting_phase status = None \<and>
           map_of (approval_updates p a fb) ''status'' = Some (PyStatus status)"
  using assms by (auto simp: approval_updates_def)

text \<open>
  Claim C1, amended. In every store built by create, \<open>set_pending_approval\<close>,
  \<open>handle_user_approval\<close> with approve, request\_revision or reject,
  \<open>transition_to_phase\<close> to a status that is not an awaiting-approval status, and
  reset, every record has \<open>pending_approval\<close> not \<open>None\<close> exactly when its status is
  an awaiting-approval status, and then \<open>pending_approval\<close> names the phase of that
  status.
\<close>

theorem pending_approval_invariant:
  assumes "gate_reachable store" and "store workflow_id = Some state"
  shows "pending_approval_consistent state"
  using assms
proof (induction arbitrary: workflow_id state rule: gate_reachable.induct)
  case start
  then show ?case by simp
next
  case (create store wid0 feature_name description llm_provider model_name research_enabled now)
  then show ?case
    by (auto simp: create_workflow_state_def Let_def consistent_initial_state split: if_splits)
next
  case (pending store wid0 phase content now store' state')
  from pending.hyps(2) obtain awaiting where aw: "map_of status_map phase = Some awaiting"
    and upd: "update_workflow_state store wid0
                (AList.update (phase @ ''_content'') (PyStr content)
                   [(''status'', PyStatus awaiting), (''pending_approval'', PyStr phase)]) now
              = Inr (store', state')"
    by (auto simp: set_pending_approval_def Let_def split: option.splits)
  have ne: "phase @ ''_content'' \<noteq> ''status''" "phase @ ''_content'' \<noteq> ''pending_approval''"
    using aw by (auto simp: status_map_def split: if_splits)
  show ?case
    by (rule consistent_update [OF upd _ pending.IH _ _ pending.prems, where status = awaiting])
       (use ne status_map_SomeD [OF aw] in \<open>simp_all add: update_conv' distinct_update py_optional_def\<close>)
next
  case (approval store action wid0 feedback now store' state')
  from handle_user_approval_InrD [OF approval.hyps(3)] obtain old p where
    old: "store wid0 = Some old" and pend: "map_of old ''pending_approval'' = Some (PyStr p)"
    and upd: "update_workflow_state store wid0
                (approval_updates p action (py_optional feedback)) now = Inr (store', state')"
    by blast
  from consistent_pendingD [OF approval.IH [OF old] pend] awaiting_phase_SomeD
  have "p \<in> {''requirements'', ''design'', ''tasks''}" by blast
  from approval_updates_status [OF this approval.hyps(2)] obtain status where
    status: "awaiting_phase status = None"
            "map_of (approval_updates p action (py_optional feedback)) ''status'' = Some (PyStatus status)"
    by blast
  have "map_of (approval_updates p action (py_optional feedback)) ''pending_approval''
          = Some (py_optional (awaiting_phase status))"
    by (simp add: approval_updates_pending status(1) py_optional_def)
  from consistent_update [OF upd distinct_approval_updates approval.IH status(2) this approval.prems]
  show ?case .
next
  case (transition store status wid0 phase now store' state')
  show ?case
    by (rule consistent_update [OF transition.hyps(3) [unfolded transition_to_phase_def] _
              transition.IH _ _ transition.prems, where status = status])
       (simp_all add: transition.hyps(2) py_optional_def)
next
  case (reset store wid0 now store' state')
  from reset.hyps(2) have upd: "update_workflow_state store wid0
                 [(''status'', PyStatus INITIALIZING),
                  (''current_phase'', PyPhase REQUIREMENTS),
                  (''requirements_content'', PyNone),
                  (''design_content'', PyNone),
                  (''tasks_content'', PyNone),
                  (''requirements_approved'', PyBool False),
                  (''design_approved'', PyBool False),
                  (''tasks_approved'', PyBool False),
                  (''pending_approval'', PyNone),
                  (''user_feedback'', PyNone),
                  (''last_user_action'', PyNone),
                  (''retry_count'', PyInt 0),
                  (''last_error'', PyNone),
                  (''generated_files'', PyDict [])]
                 now = Inr (store', state')"
    by (auto simp: reset_workflow_def get_workflow_state_def split: option.splits if_splits)
  show ?case
    by (rule consistent_update [OF upd _ reset.IH _ _ reset.prems, where status = INITIALIZING])
       (simp_all add: py_optional_def)
qed

lemma set_pending_approval_InrD:
  "set_pending_approval store workflow_id phase content now = Inr (store', state') \<Longrightarrow>
   store' workflow_id = Some state'"
  by (auto simp: set_pending_approval_def Let_def split: option.splits
           dest: update_workflow_state_InrD)

theorem pending_approval_invariant_witness:
  "gate_reachable demo_awaiting \<and>
   map_option pending_approval_consistent (demo_awaiting ''wf-1'') = Some True"
proof -
  have r0: "gate_reachable demo_created"
    unfolding demo_created_def by (rule gate_reachable.create [OF gate_reachable.start])
  obtain store' state' where
    e: "set_pending_approval demo_created ''wf-1'' ''requirements''
          ''## Functional Requirements'' ''2024-05-01T09:01:00'' = Inr (store', state')"
    by (simp add: manager_eval)
  then have s: "demo_awaiting = store'" by (simp add: demo_awaiting_def result_store_def)
  have r: "gate_reachable store'" by (rule gate_reachable.pending [OF r0 e])
  from pending_approval_invariant [OF r set_pending_approval_InrD [OF e]]
  show ?thesis using r set_pending_approval_InrD [OF e] by (simp add: s)
qed

theorem pending_approval_counterexample:
  "map_option pending_approval_consistent (demo_cancelled ''wf-1'') = Some False"
  by (simp add: manager_eval demo_cancelled_def pending_approval_consistent_def)

subsection \<open>Keys that the created record lacks\<close>

lemma store_reachable_no_paths:
  assumes "store_reachable store" and "store workflow_id = Some state"
  shows "map_of state ''written_file_paths'' = None"
  using assms
proof (induction arbitrary: workflow_id state rule: store_reachable.induct)
  case empty
  then show ?case by simp
next
  case (created store wid0 feature_name description llm_provider model_name research_enabled now)
  then show ?case
    by (auto simp: create_workflow_state_def Let_def initial_state_def split: if_splits)
next
  case (updated store wid0 updates now store' state')
  from update_workflow_state_InrD [OF updated.hyps(2)]
  obtain old where old: "store wid0 = Some old" and store': "store' = store(wid0 \<mapsto> state')"
    by auto
  show ?case
  proof (cases "workflow_id = wid0")
    case True
    with updated.prems store' have "state = state'" by simp
    with update_keeps_absent [OF updated.hyps(2) old updated.IH [OF old]] show ?thesis by simp
  next
    case False
    with updated.prems store' updated.IH show ?thesis by simp
  qed
next
  case (cleaned store wid0)
  then show ?case by (auto simp: cleanup_workflow_def split: if_splits)
qed

lemma final_documents_reachable:
  assumes "store_reachable store"
    and "generate_final_documents_node store input render_and_write now = Inr (store', state')"
  shows "store_reachable store'"
proof -
  from assms(2) obtain workflow_id updates where
    "update_workflow_state store workflow_id updates now = Inr (store', state')"
    by (auto simp: generate_final_documents_node_def Let_def split: sum.splits prod.splits)
  with assms(1) show ?thesis by (rule store_reachable.updated)
qed

text \<open>
  Claim C9. \<open>update_workflow_state\<close> leaves absent every supplied key that the stored
  record lacks (the timestamp \<open>updated_at\<close>, which it always writes, apart) and stores
  the supplied value of a key the record has. No record of a store built by creation,
  updates and cleanup has the key \<open>written_file_paths\<close>, and none has it after
  \<open>generate_final_documents_node\<close> has run: the written paths are not kept.
\<close>

theorem written_file_paths_never_stored:
  assumes "store_reachable store" and "store workflow_id = Some state"
  shows "(\<forall>key updates now. map_of state key = None \<and> key \<noteq> ''updated_at'' \<longrightarrow>
            (\<exists>state'. update_workflow_state store workflow_id updates now =
                         Inr (store(workflow_id \<mapsto> state'), state') \<and>
                       map_of state' key = None)) \<and>
         (\<forall>key value updates now.
            map_of state key \<noteq> None \<and> key \<noteq> ''updated_at'' \<and> distinct (map fst updates) \<and>
            map_of updates key = Some value \<longrightarrow>
            (\<exists>state'. update_workflow_state store workflow_id updates now =
                         Inr (store(workflow_id \<mapsto> state'), state') \<and>
                       map_of state' key = Some value)) \<and>
         map_of state ''written_file_paths'' = None \<and>
         (\<forall>input render_and_write now store' state' workflow_id' state''.
            generate_final_documents_node store input render_and_write now = Inr (store', state') \<and>
            store' workflow_id' = Some state'' \<longrightarrow>
            map_of state'' ''written_file_paths'' = None)"
proof (intro conjI allI impI)
  fix key updates now
  assume "map_of state key = None \<and> key \<noteq> ''updated_at''"
  then show "\<exists>state'. update_workflow_state store workflow_id updates now =
                         Inr (store(workflow_id \<mapsto> state'), state') \<and>
                       map_of state' key = None"
    using assms(2) by (simp add: update_workflow_state_Some update_conv' update_fields_None)
next
  fix key v updates now
  assume "map_of state key \<noteq> None \<and> key \<noteq> ''updated_at'' \<and>
            distinct (map fst (updates::pydict)) \<and> map_of updates key = Some v"
  then show "\<exists>state'. update_workflow_state store workflow_id updates now =
                         Inr (store(workflow_id \<mapsto> state'), state') \<and>
                       map_of state' key = Some v"
    using assms(2) by (auto simp: update_workflow_state_Some map_of_updated)
next
  show "map_of state ''written_file_paths'' = None"
    using assms by (rule store_reachable_no_paths)
next
  fix input render_and_write now store' state' workflow_id' state''
  assume "generate_final_documents_node store input render_and_write now = Inr (store', state') \<and>
            store' workflow_id' = Some state''"
  then show "map_of state'' ''written_file_paths'' = None"
    using final_documents_reachable [OF assms(1)] store_reachable_no_paths by blast
qed

theorem written_file_paths_never_stored_witness:
  "store_reachable demo_created \<and> demo_created ''wf-1'' = Some demo_input \<and>
   map_of demo_input ''written_file_paths'' = None \<and>
   result_field (generate_final_documents_node demo_created demo_input demo_render
                   ''2024-05-01T09:05:00'') ''status'' = Some (PyStatus COMPLETED) \<and>
   result_field (generate_final_documents_node demo_created demo_input demo_render
                   ''2024-05-01T09:05:00'') ''written_file_paths'' = None"
proof -
  have r: "store_reachable demo_created"
    unfolding demo_created_def by (rule store_reachable.created [OF store_reachable.empty])
  have s: "demo_created ''wf-1'' = Some demo_input"
    by (simp add: demo_created_def demo_input_def create_workflow_state_def Let_def)
  obtain store' state' where
    e: "generate_final_documents_node demo_created demo_input demo_render ''2024-05-01T09:05:00''
          = Inr (store', state')"
    and f: "map_of state' ''status'' = Some (PyStatus COMPLETED)"
    and g: "store' ''wf-1'' = Some state'"
    by (simp add: manager_eval generate_final_documents_node_def demo_render_def)
  from written_file_paths_never_stored [OF r s] e g
  have "map_of demo_input ''written_file_paths'' = None"
    and "map_of state' ''written_file_paths'' = None"
    by blast+
  then show ?thesis using r s by (simp add: e f result_field_def)
qed

subsection \<open>Approving the tasks phase\<close>

lemma final_documents_outcome:
  assumes "store workflow_id = Some state"
    and "map_of state ''workflow_id'' \<noteq> None"
    and "map_of state ''status'' \<noteq> None"
    and "map_of input ''workflow_id'' = Some (PyStr workflow_id)"
  shows "\<exists>state'.
           generate_final_documents_node store input render_and_write now =
             Inr (store(workflow_id \<mapsto> state'), state') \<and>
           map_of state' ''status'' =
             Some (PyStatus (if isl (render_and_write input) then FAILED else COMPLETED)) \<and>
           map_of state' ''current_phase'' = map_of state ''current_phase''"
proof (cases "render_and_write input")
  case (Inl e)
  let ?state' = "AList.update ''updated_at'' (PyStr now)
                   (update_fields [(''status'', PyStatus FAILED),
                                   (''last_error'', PyStr (str_of_error e))] state)"
  have "generate_final_documents_node store input render_and_write now =
          Inr (store(workflow_id \<mapsto> ?state'), ?state')"
    using assms(1,4) Inl
    by (simp add: generate_final_documents_node_def getitem_str_def update_workflow_state_Some)
  moreover have "map_of ?state' ''status'' = Some (PyStatus FAILED)"
    using assms(3) by (simp add: map_of_updated)
  moreover have "map_of ?state' ''current_phase'' = map_of state ''current_phase''"
    by (simp add: map_of_updated)
  ultimately show ?thesis using Inl by auto
next
  case (Inr result)
  obtain documents written_files where r: "result = (documents, written_files)"
    by (cases result)
  let ?state' = "AList.update ''updated_at'' (PyStr now)
                   (update_fields [(''generated_files'', PyDict documents),
                                   (''written_file_paths'', PyDict written_files),
                                   (''status'', PyStatus COMPLETED)] state)"
  obtain v where v: "map_of state ''workflow_id'' = Some v"
    using assms(2) by blast
  have w: "getitem ?state' ''workflow_id'' = Inr v"
    by (simp add: getitem_def map_of_updated v)
  have "generate_final_documents_node store input render_and_write now =
          Inr (store(workflow_id \<mapsto> ?state'), ?state')"
    using assms(1,4) Inr r
    by (simp add: generate_final_documents_node_def getitem_str_def update_workflow_state_Some w
             del: map_of.simps)
  moreover have "map_of ?state' ''status'' = Some (PyStatus COMPLETED)"
    using assms(3) by (simp add: map_of_updated)
  moreover have "map_of ?state' ''current_phase'' = map_of state ''current_phase''"
    by (simp add: map_of_updated)
  ultimately show ?thesis using Inr by auto
qed

text \<open>
  Claim C2, amended. Approving the tasks phase sets the status to
  \<open>generating_final_documents\<close>, sets \<open>tasks_approved\<close>, and sets the current phase
  to \<open>completed\<close> at once. Final-document generation on the approved record leaves the
  current phase as it is and sets the status: to \<open>completed\<close> when rendering and writing
  the documents succeeds, to \<open>failed\<close> when it raises. So the status, not the phase,
  becomes \<open>completed\<close> only once the documents are produced.
\<close>

theorem tasks_approval_sets_phase_completed:
  assumes "store workflow_id = Some state"
    and "map_of state ''pending_approval'' = Some (PyStr ''tasks'')"
    and "map_of state ''workflow_id'' = Some (PyStr workflow_id)"
    and "map_of state ''status'' \<noteq> None"
    and "map_of state ''current_phase'' \<noteq> None"
    and "map_of state ''tasks_approved'' \<noteq> None"
  shows "\<exists>state'.
           handle_user_approval store workflow_id APPROVE feedback now =
             Inr (store(workflow_id \<mapsto> state'), state') \<and>
           map_of state' ''status'' = Some (PyStatus GENERATING_FINAL_DOCUMENTS) \<and>
           map_of state' ''current_phase'' = Some (PyPhase PHASE_COMPLETED) \<and>
           map_of state' ''tasks_approved'' = Some (PyBool True) \<and>
           (\<forall>input render_and_write now'.
              map_of input ''workflow_id'' = Some (PyStr workflow_id) \<longrightarrow>
              (\<exists>state''.
                 generate_final_documents_node (store(workflow_id \<mapsto> state')) input
                   render_and_write now' = Inr (store(workflow_id \<mapsto> state''), state'') \<and>
                 map_of state'' ''status'' =
                   Some (PyStatus (if isl (render_and_write input) then FAILED else COMPLETED)) \<and>
                 map_of state'' ''current_phase'' = Some (PyPhase PHASE_COMPLETED)))"
proof -
  let ?updates = "[(''last_user_action'', PyAction APPROVE), (''user_feedback'', py_optional feedback),
                   (''pending_approval'', PyNone), (''tasks_approved'', PyBool True),
                   (''status'', PyStatus GENERATING_FINAL_DOCUMENTS),
                   (''current_phase'', PyPhase PHASE_COMPLETED)]"
  define state' where "state' = AList.update ''updated_at'' (PyStr now) (update_fields ?updates state)"
  have upd: "approval_updates ''tasks'' APPROVE (py_optional feedback) = ?updates"
    by (simp add: approval_updates_def)
  have h: "handle_user_approval store workflow_id APPROVE feedback now =
             Inr (store(workflow_id \<mapsto> state'), state')"
    using assms(1,2)
    by (simp add: handle_user_approval_pending upd update_workflow_state_Some state'_def)
  have s: "map_of state' ''status'' = Some (PyStatus GENERATING_FINAL_DOCUMENTS)"
    using assms(4) by (simp add: map_of_updated state'_def)
  have p: "map_of state' ''current_phase'' = Some (PyPhase PHASE_COMPLETED)"
    using assms(5) by (simp add: map_of_updated state'_def)
  have a: "map_of state' ''tasks_approved'' = Some (PyBool True)"
    using assms(6) by (simp add: map_of_updated state'_def)
  have w: "map_of state' ''workflow_id'' \<noteq> None"
    using assms(3) by (simp add: map_of_updated state'_def)
  have later: "\<exists>state''.
         generate_final_documents_node (store(workflow_id \<mapsto> state')) input
           render_and_write now' = Inr (store(workflow_id \<mapsto> state''), state'') \<and>
         map_of state'' ''status'' =
           Some (PyStatus (if isl (render_and_write input) then FAILED else COMPLETED)) \<and>
         map_of state'' ''current_phase'' = Some (PyPhase PHASE_COMPLETED)"
    if i: "map_of input ''workflow_id'' = Some (PyStr workflow_id)"
    for input now' and render_and_write :: "WorkflowGraphState \<Rightarrow> pyerror + (pydict \<times> pydict)"
  proof -
    have st: "(store(workflow_id \<mapsto> state')) workflow_id = Some state'" by simp
    have sn: "map_of state' ''status'' \<noteq> None" using s by simp
    from final_documents_outcome
           [where store = "store(workflow_id \<mapsto> state')" and state = state'
              and workflow_id = workflow_id and input = input
              and render_and_write = render_and_write and now = now', OF st w sn i]
    show ?thesis by (simp add: p)
  qed
  from h s p a later show ?thesis by blast
qed

theorem tasks_approval_sets_phase_completed_witness:
  "result_field (handle_user_approval demo_awaiting_tasks ''wf-1'' APPROVE None ''2024-05-01T09:04:00'')
     ''tasks_approved'' = Some (PyBool True) \<and>
   result_field
     (generate_final_documents_node
        (result_store (handle_user_approval demo_awaiting_tasks ''wf-1'' APPROVE None
                         ''2024-05-01T09:04:00''))
        demo_input demo_render ''2024-05-01T09:05:00'')
     ''status'' = Some (PyStatus COMPLETED) \<and>
   result_field
     (generate_final_documents_node
        (result_store (handle_user_approval demo_awaiting_tasks ''wf-1'' APPROVE None
                         ''2024-05-01T09:04:00''))
        demo_input demo_render_fails ''2024-05-01T09:05:00'')
     ''status'' = Some (PyStatus FAILED)"
proof -
  obtain state where st: "demo_awaiting_tasks ''wf-1'' = Some state"
    and p: "map_of state ''pending_approval'' = Some (PyStr ''tasks'')"
    and w: "map_of state ''workflow_id'' = Some (PyStr ''wf-1'')"
    and k: "map_of state ''status'' \<noteq> None" "map_of state ''current_phase'' \<noteq> None"
      "map_of state ''tasks_approved'' \<noteq> None"
    by (simp add: manager_eval demo_awaiting_tasks_def)
  have i: "map_of demo_input ''workflow_id'' = Some (PyStr ''wf-1'')"
    by (simp add: manager_eval)
  have d: "\<not> isl (demo_render demo_input)" "isl (demo_render_fails demo_input)"
    by (simp_all add: demo_render_def demo_render_fails_def)
  from tasks_approval_sets_phase_completed
         [where store = demo_awaiting_tasks and workflow_id = "''wf-1''" and state = state
            and feedback = None and now = "''2024-05-01T09:04:00''", OF st p w k]
  obtain state' where
    h: "handle_user_approval demo_awaiting_tasks ''wf-1'' APPROVE None ''2024-05-01T09:04:00'' =
          Inr (demo_awaiting_tasks(''wf-1'' \<mapsto> state'), state')"
    and a: "map_of state' ''tasks_approved'' = Some (PyBool True)"
    and later: "\<And>input render_and_write now'.
          map_of input ''workflow_id'' = Some (PyStr ''wf-1'') \<Longrightarrow>
          (\<exists>state''.
             generate_final_documents_node (demo_awaiting_tasks(''wf-1'' \<mapsto> state')) input
               render_and_write now' = Inr (demo_awaiting_tasks(''wf-1'' \<mapsto> state''), state'') \<and>
             map_of state'' ''status'' =
               Some (PyStatus (if isl (render_and_write input) then FAILED else COMPLETED)) \<and>
             map_of state'' ''current_phase'' = Some (PyPhase PHASE_COMPLETED))"
    by blast
  from later [of demo_input demo_render "''2024-05-01T09:05:00''", OF i]
       later [of demo_input demo_render_fails "''2024-05-01T09:05:00''", OF i] a d
  show ?thesis by (auto simp: h result_field_def result_store_def)
qed

theorem tasks_approval_counterexample:
  "result_field (handle_user_approval demo_awaiting_tasks ''wf-1'' APPROVE None ''2024-05-01T09:04:00'')
     ''status'' = Some (PyStatus GENERATING_FINAL_DOCUMENTS) \<and>
   result_field (handle_user_approval demo_awaiting_tasks ''wf-1'' APPROVE None ''2024-05-01T09:04:00'')
     ''current_phase'' = Some (PyPhase PHASE_COMPLETED)"
  by (simp add: manager_eval demo_awaiting_tasks_def)

subsection \<open>Generation nodes\<close>

lemma add_conversation_message_Some:
  assumes "store workflow_id = Some state"
    and "map_of state ''conversation_history'' = Some (PyList history)"
  shows "add_conversation_message store workflow_id role content metadata stamp now =
           update_workflow_state store workflow_id
             [(''conversation_history'',
               PyList (history @ [PyDict [(''role'', PyStr role), (''content'', PyStr content),
                                         (''timestamp'', PyStr stamp),
                                         (''metadata'', PyDict metadata)]]))] now"
  using assms by (auto simp: add_conversation_message_def get_workflow_state_def Let_def)

lemma content_field_neq:
  "map_of status_map phase = Some awaiting \<Longrightarrow>
   phase @ ''_content'' \<notin>
     {''status'', ''pending_approval'', ''retry_count'', ''last_error'', ''workflow_id''}"
  by (auto simp: status_map_def split: if_splits)

lemma generation_node_success:
  assumes "store workflow_id = Some state"
    and "map_of input ''workflow_id'' = Some (PyStr workflow_id)"
    and "map_of state ''workflow_id'' = Some (PyStr workflow_id)"
    and "map_of state ''model_name'' \<noteq> None"
    and "map_of state ''conversation_history'' = Some (PyList history)"
    and "map_of state ''status'' \<noteq> None"
    and "map_of status_map phase = Some awaiting"
    and "\<And>s. invoke s = Inr content"
  shows "\<exists>state'.
           generation_node generating phase store input invoke now =
             Inr (store(workflow_id \<mapsto> state'), state') \<and>
           map_of state' ''status'' = Some (PyStatus awaiting) \<and>
           map_of state' ''retry_count'' = map_of state ''retry_count'' \<and>
           map_of state' ''last_error'' = map_of state ''last_error''"
proof -
  let ?s1 = "AList.update ''updated_at'' (PyStr (now 0))
               (update_fields [(''status'', PyStatus generating)] state)"
  obtain model where model: "map_of state ''model_name'' = Some model"
    using assms(4) by blast
  let ?msg = "PyDict [(''role'', PyStr ''assistant''), (''content'', PyStr content),
                      (''timestamp'', PyStr (now 1)),
                      (''metadata'', PyDict [(''phase'', PyStr phase), (''model'', model)])]"
  let ?s2 = "AList.update ''updated_at'' (PyStr (now 2))
               (update_fields [(''conversation_history'', PyList (history @ [?msg]))] ?s1)"
  let ?ups = "AList.update (phase @ ''_content'') (PyStr content)
                [(''status'', PyStatus awaiting), (''pending_approval'', PyStr phase)]"
  let ?s3 = "AList.update ''updated_at'' (PyStr (now 3)) (update_fields ?ups ?s2)"
  have d: "distinct (map fst ?ups)" by (simp add: distinct_update)
  have ne: "phase @ ''_content'' \<noteq> ''status''" "phase @ ''_content'' \<noteq> ''retry_count''"
    "phase @ ''_content'' \<noteq> ''last_error''" "phase @ ''_content'' \<noteq> ''pending_approval''"
    "phase @ ''_content'' \<noteq> ''workflow_id''"
    using content_field_neq [OF assms(7)] by auto
  have u1: "update_workflow_state store workflow_id [(''status'', PyStatus generating)] (now 0) =
              Inr (store(workflow_id \<mapsto> ?s1), ?s1)"
    using assms(1) by (simp add: update_workflow_state_Some)
  have r1: "getitem_str ?s1 ''workflow_id'' = Inr workflow_id" "getitem ?s1 ''model_name'' = Inr model"
    using assms(3) model by (simp_all add: getitem_str_def getitem_def map_of_updated)
  have u2: "add_conversation_message (store(workflow_id \<mapsto> ?s1)) workflow_id ''assistant'' content
              [(''phase'', PyStr phase), (''model'', model)] (now 1) (now 2) =
            Inr (store(workflow_id \<mapsto> ?s2), ?s2)"
    by (subst add_conversation_message_Some [where state = ?s1 and history = history])
       (use assms(5) in \<open>simp_all add: map_of_updated update_workflow_state_Some\<close>)
  have u3: "set_pending_approval (store(workflow_id \<mapsto> ?s2)) workflow_id phase content (now 3) =
              Inr (store(workflow_id \<mapsto> ?s3), ?s3)"
    using assms(7) by (simp add: set_pending_approval_def Let_def update_workflow_state_Some)
  have r0: "getitem_str input ''workflow_id'' = Inr workflow_id"
    using assms(2) by (simp add: getitem_str_def)
  have r3: "getitem ?s3 ''workflow_id'' = Inr (PyStr workflow_id)"
    using assms(3) ne by (simp add: getitem_def map_of_updated)
  have "generation_node generating phase store input invoke now =
          Inr (store(workflow_id \<mapsto> ?s3), ?s3)"
    by (simp only: generation_node_def generation_attempt_def r0 u1 assms(8) r1 u2 u3 r3
          sum.case prod.case)
  moreover have "map_of ?s3 ''status'' = Some (PyStatus awaiting)"
    using assms(6) ne by (simp add: map_of_updated)
  moreover have "map_of ?s3 ''retry_count'' = map_of state ''retry_count''"
    using ne by (simp add: map_of_updated)
  moreover have "map_of ?s3 ''last_error'' = map_of state ''last_error''"
    using ne by (simp add: map_of_updated)
  ultimately show ?thesis by blast
qed

lemma generation_node_failure:
  assumes "store workflow_id = Some state"
    and "map_of input ''workflow_id'' = Some (PyStr workflow_id)"
    and "map_of state ''workflow_id'' = Some (PyStr workflow_id)"
    and "map_of state ''retry_count'' = Some (PyInt n)"
    and "map_of state ''status'' \<noteq> None"
    and "map_of state ''last_error'' \<noteq> None"
    and "\<And>s. invoke s = Inl e"
  shows "\<exists>state'.
           generation_node generating phase store input invoke now =
             Inr (store(workflow_id \<mapsto> state'), state') \<and>
           map_of state' ''retry_count'' = Some (PyInt (n + 1)) \<and>
           map_of state' ''last_error'' = Some (PyStr (str_of_error e)) \<and>
           map_of state' ''status'' = Some (PyStatus FAILED) \<and>
           route_from_generation awaiting retry state' =
             Inr (if n + 1 < 3 then retry else ''end'')"
proof -
  let ?s1 = "AList.update ''updated_at'' (PyStr (now 0))
               (update_fields [(''status'', PyStatus generating)] state)"
  let ?ups = "[(''status'', PyStatus FAILED), (''last_error'', PyStr (str_of_error e)),
               (''retry_count'', PyInt (n + 1))]"
  let ?s2 = "AList.update ''updated_at'' (PyStr (now 4)) (update_fields ?ups ?s1)"
  have u1: "update_workflow_state store workflow_id [(''status'', PyStatus generating)] (now 0) =
              Inr (store(workflow_id \<mapsto> ?s1), ?s1)"
    using assms(1) by (simp add: update_workflow_state_Some)
  have att: "generation_attempt generating phase store input workflow_id invoke now =
               Inl (e, store(workflow_id \<mapsto> ?s1), ?s1)"
    by (simp add: generation_attempt_def u1 assms(7) del: map_of.simps)
  have r1: "getitem_str ?s1 ''workflow_id'' = Inr workflow_id"
    "getitem ?s1 ''retry_count'' = Inr (PyInt n)"
    using assms(3,4) by (simp_all add: getitem_str_def getitem_def map_of_updated)
  have "generation_failed (store(workflow_id \<mapsto> ?s1)) ?s1 e (now 4) =
          Inr (store(workflow_id \<mapsto> ?s2), ?s2)"
    by (simp add: generation_failed_def r1 update_workflow_state_Some del: map_of.simps)
  moreover have r0: "getitem_str input ''workflow_id'' = Inr workflow_id"
    using assms(2) by (simp add: getitem_str_def)
  ultimately have "generation_node generating phase store input invoke now =
          Inr (store(workflow_id \<mapsto> ?s2), ?s2)"
    by (simp add: generation_node_def att del: map_of.simps)
  moreover have f: "map_of ?s2 ''retry_count'' = Some (PyInt (n + 1))"
    "map_of ?s2 ''last_error'' = Some (PyStr (str_of_error e))"
    "map_of ?s2 ''status'' = Some (PyStatus FAILED)"
    using assms(4,5,6) by (simp_all add: map_of_updated)
  moreover have w: "map_of ?s2 ''workflow_id'' = Some (PyStr workflow_id)"
    using assms(3) by (simp add: map_of_updated)
  moreover have "route_from_generation awaiting retry ?s2 =
                   Inr (if n + 1 < 3 then retry else ''end'')"
    by (simp add: route_from_generation_def is_workflow_failed_def getitem_def f w
             del: map_of.simps)
  ultimately show ?thesis by blast
qed

text \<open>
  Claim C3, amended. When a generation node succeeds, the record enters the
  awaiting-approval status of its phase with \<open>retry_count\<close> and \<open>last_error\<close> as they
  were before the node ran: entering an awaiting-approval status resets neither.
\<close>

theorem awaiting_keeps_retry_count:
  assumes "store workflow_id = Some state"
    and "map_of input ''workflow_id'' = Some (PyStr workflow_id)"
    and "map_of state ''workflow_id'' = Some (PyStr workflow_id)"
    and "map_of state ''model_name'' \<noteq> None"
    and "map_of state ''conversation_history'' = Some (PyList history)"
    and "map_of state ''status'' \<noteq> None"
    and "\<And>s. invoke s = Inr content"
  shows "(\<exists>state'. generate_requirements_node store input invoke now =
                      Inr (store(workflow_id \<mapsto> state'), state') \<and>
           map_of state' ''status'' = Some (PyStatus AWAITING_REQUIREMENTS_APPROVAL) \<and>
           map_of state' ''retry_count'' = map_of state ''retry_count'' \<and>
           map_of state' ''last_error'' = map_of state ''last_error'') \<and>
         (\<exists>state'. generate_design_node store input invoke now =
                      Inr (store(workflow_id \<mapsto> state'), state') \<and>
           map_of state' ''status'' = Some (PyStatus AWAITING_DESIGN_APPROVAL) \<and>
           map_of state' ''retry_count'' = map_of state ''retry_count'' \<and>
           map_of state' ''last_error'' = map_of state ''last_error'') \<and>
         (\<exists>state'. generate_tasks_node store input invoke now =
                      Inr (store(workflow_id \<mapsto> state'), state') \<and>
           map_of state' ''status'' = Some (PyStatus AWAITING_TASKS_APPROVAL) \<and>
           map_of state' ''retry_count'' = map_of state ''retry_count'' \<and>
           map_of state' ''last_error'' = map_of state ''last_error'')"
proof -
  have m: "map_of status_map ''requirements'' = Some AWAITING_REQUIREMENTS_APPROVAL"
    "map_of status_map ''design'' = Some AWAITING_DESIGN_APPROVAL"
    "map_of status_map ''tasks'' = Some AWAITING_TASKS_APPROVAL"
    by (simp_all add: status_map_def)
  note g = generation_node_success [where store = store and workflow_id = workflow_id
             and state = state and input = input and invoke = invoke and content = content
             and history = history and now = now, OF assms(1-6) _ assms(7)]
  show ?thesis
    unfolding generate_requirements_node_def generate_design_node_def generate_tasks_node_def
    by (intro conjI g m)
qed

theorem awaiting_keeps_retry_count_witness:
  "map_option (\<lambda>state. map_of state ''retry_count'') (demo_failed_once ''wf-1'') = Some (Some (PyInt 1)) \<and>
   result_field (generate_design_node demo_failed_once demo_input demo_answer demo_clock)
     ''status'' = Some (PyStatus AWAITING_DESIGN_APPROVAL) \<and>
   result_field (generate_design_node demo_failed_once demo_input demo_answer demo_clock)
     ''retry_count'' = Some (PyInt 1)"
proof -
  obtain state where st: "demo_failed_once ''wf-1'' = Some state"
    and w: "map_of state ''workflow_id'' = Some (PyStr ''wf-1'')"
    and k: "map_of state ''model_name'' \<noteq> None"
    and h: "map_of state ''conversation_history'' = Some (PyList [])"
    and s: "map_of state ''status'' \<noteq> None"
    and r: "map_of state ''retry_count'' = Some (PyInt 1)"
    by (simp add: manager_eval node_eval demo_failed_once_def demo_answer_def)
  have i: "map_of demo_input ''workflow_id'' = Some (PyStr ''wf-1'')"
    by (simp add: manager_eval node_eval demo_failed_once_def demo_answer_def)
  have a: "\<And>s. demo_answer s = Inr ''## Functional Requirements''"
    by (simp add: demo_answer_def)
  from awaiting_keeps_retry_count
         [where store = demo_failed_once and workflow_id = "''wf-1''" and state = state
            and input = demo_input and invoke = demo_answer and now = demo_clock
            and history = "[]" and content = "''## Functional Requirements''", OF st i w k h s a]
  show ?thesis using st r by (auto simp: result_field_def)
qed

theorem awaiting_keeps_retry_count_counterexample:
  "result_field (generate_requirements_node demo_failed_once demo_input demo_answer demo_clock)
     ''status'' = Some (PyStatus AWAITING_REQUIREMENTS_APPROVAL) \<and>
   result_field (generate_requirements_node demo_failed_once demo_input demo_answer demo_clock)
     ''retry_count'' = Some (PyInt 1) \<and>
   result_field (generate_requirements_node demo_failed_once demo_input demo_answer demo_clock)
     ''last_error'' = Some (PyStr ''OpenAI rate limit exceeded: 429'')"
  by (simp add: manager_eval node_eval demo_failed_once_def demo_answer_def)

text \<open>
  Claim C4, amended. When the model invocation of a generation node raises, the node
  does not propagate the exception: it returns the record with \<open>retry_count\<close> one
  higher, \<open>last_error\<close> the text of the exception, and status \<open>failed\<close>. The router
  after the node sends a failed record back to the same node while \<open>retry_count\<close> is
  below 3 and ends the run otherwise.
\<close>

theorem generation_failure_marks_failed:
  assumes "store workflow_id = Some state"
    and "map_of input ''workflow_id'' = Some (PyStr workflow_id)"
    and "map_of state ''workflow_id'' = Some (PyStr workflow_id)"
    and "map_of state ''retry_count'' = Some (PyInt n)"
    and "map_of state ''status'' \<noteq> None"
    and "map_of state ''last_error'' \<noteq> None"
    and "\<And>s. invoke s = Inl e"
  shows "(\<exists>state'. generate_requirements_node store input invoke now =
                      Inr (store(workflow_id \<mapsto> state'), state') \<and>
           map_of state' ''retry_count'' = Some (PyInt (n + 1)) \<and>
           map_of state' ''last_error'' = Some (PyStr (str_of_error e)) \<and>
           map_of state' ''status'' = Some (PyStatus FAILED) \<and>
           route_from_requirements state' =
             Inr (if n + 1 < 3 then ''generate_requirements'' else ''end'')) \<and>
         (\<exists>state'. generate_design_node store input invoke now =
                      Inr (store(workflow_id \<mapsto> state'), state') \<and>
           map_of state' ''retry_count'' = Some (PyInt (n + 1)) \<and>
           map_of state' ''last_error'' = Some (PyStr (str_of_error e)) \<and>
           map_of state' ''status'' = Some (PyStatus FAILED) \<and>
           route_from_design state' =
             Inr (if n + 1 < 3 then ''generate_design'' else ''end'')) \<and>
         (\<exists>state'. generate_tasks_node store input invoke now =
                      Inr (store(workflow_id \<mapsto> state'), state') \<and>
           map_of state' ''retry_count'' = Some (PyInt (n + 1)) \<and>
           map_of state' ''last_error'' = Some (PyStr (str_of_error e)) \<and>
           map_of state' ''status'' = Some (PyStatus FAILED) \<and>
           route_from_tasks state' =
             Inr (if n + 1 < 3 then ''generate_tasks'' else ''end''))"
proof -
  note g = generation_node_failure [where store = store and workflow_id = workflow_id
             and state = state and input = input and invoke = invoke and e = e and n = n
             and now = now, OF assms]
  show ?thesis
    unfolding generate_requirements_node_def generate_design_node_def generate_tasks_node_def
      route_from_requirements_def route_from_design_def route_from_tasks_def
    by (intro conjI g)
qed

theorem generation_failure_marks_failed_witness:
  "result_field (generate_tasks_node demo_created demo_input demo_rate_limited demo_clock)
     ''last_error'' = Some (PyStr ''OpenAI rate limit exceeded: 429'') \<and>
   result_field (generate_tasks_node demo_created demo_input demo_rate_limited demo_clock)
     ''retry_count'' = Some (PyInt 1) \<and>
   map_option route_from_tasks
     (result_store (generate_tasks_node demo_created demo_input demo_rate_limited demo_clock) ''wf-1'')
     = Some (Inr ''generate_tasks'')"
proof -
  obtain state where st: "demo_created ''wf-1'' = Some state"
    and w: "map_of state ''workflow_id'' = Some (PyStr ''wf-1'')"
    and r: "map_of state ''retry_count'' = Some (PyInt 0)"
    and s: "map_of state ''status'' \<noteq> None"
    and l: "map_of state ''last_error'' \<noteq> None"
    by (simp add: manager_eval)
  have i: "map_of demo_input ''workflow_id'' = Some (PyStr ''wf-1'')"
    by (simp add: manager_eval)
  have a: "\<And>s. demo_rate_limited s = Inl (RateLimitError ''OpenAI rate limit exceeded: 429'')"
    by (simp add: demo_rate_limited_def)
  from generation_failure_marks_failed
         [where store = demo_created and workflow_id = "''wf-1''" and state = state
            and input = demo_input and invoke = demo_rate_limited and now = demo_clock
            and n = 0 and e = "RateLimitError ''OpenAI rate limit exceeded: 429''",
          OF st i w r s l a]
  show ?thesis by (auto simp: result_field_def result_store_def)
qed

theorem generation_failure_counterexample:
  "result_field (generate_requirements_node demo_created demo_input demo_rate_limited demo_clock)
     ''status'' = Some (PyStatus FAILED) \<and>
   result_field (generate_requirements_node demo_created demo_input demo_rate_limited demo_clock)
     ''retry_count'' = Some (PyInt 1)"
  by (simp add: manager_eval node_eval)

subsection \<open>The retry loop\<close>

lemma upto_0_3: "[0..3::int] = [0, 1, 2, 3]"
  by (simp add: upto_rec1)

text \<open>
  Claim C6. When every invocation of the model raises, \<open>generate_and_parse\<close> with
  ceiling 3 invokes the model exactly four times, sleeps 1, 2 and 4 seconds between
  consecutive invocations, and returns the failure result "Failed after 4 attempts"
  carrying the text of the last exception.
\<close>

theorem provider_errors_exhaust_retries:
  assumes "\<And>k msgs. generate k msgs = Inl (raised k msgs)"
  shows "snd (generate_and_parse hash json_loads messages validation_model generate 3) =
           [Invoked messages, Slept 1,
            Invoked (messages @ [LLMMessage ''user'' default_retry_instruction]), Slept 2,
            Invoked (messages @ [LLMMessage ''user'' default_retry_instruction]), Slept 4,
            Invoked (messages @ [LLMMessage ''user'' default_retry_instruction])] \<and>
         fst (generate_and_parse hash json_loads messages validation_model generate 3) =
           all_attempts_failed 3
             (Some (str_of_error
                      (raised 3 (messages @ [LLMMessage ''user'' default_retry_instruction])))) \<and>
         \<not> success (fst (generate_and_parse hash json_loads messages validation_model generate 3))"
  by (simp add: generate_and_parse_def parse_with_retry_def upto_0_3 assms Let_def
        all_attempts_failed_def numeral_3_eq_3)

theorem provider_errors_exhaust_retries_witness:
  "snd (generate_and_parse demo_hash demo_json_loads demo_messages
          (None :: (string, unit) validation_model option) demo_failing_model 3) =
     [Invoked demo_messages, Slept 1,
      Invoked (demo_messages @ [LLMMessage ''user'' default_retry_instruction]), Slept 2,
      Invoked (demo_messages @ [LLMMessage ''user'' default_retry_instruction]), Slept 4,
      Invoked (demo_messages @ [LLMMessage ''user'' default_retry_instruction])] \<and>
   error (fst (generate_and_parse demo_hash demo_json_loads demo_messages
          (None :: (string, unit) validation_model option) demo_failing_model 3)) =
     Some ''Failed after 4 attempts. Last error: OpenAI rate limit exceeded: 429''"
proof -
  have a: "\<And>k msgs. demo_failing_model k msgs =
             Inl ((\<lambda>k msgs. RateLimitError ''OpenAI rate limit exceeded: 429'') k msgs)"
    by (simp add: demo_failing_model_def)
  from provider_errors_exhaust_retries
         [where generate = demo_failing_model and hash = demo_hash and json_loads = demo_json_loads
            and messages = demo_messages
            and validation_model = "None :: (string, unit) validation_model option"
            and raised = "\<lambda>k msgs. RateLimitError ''OpenAI rate limit exceeded: 429''", OF a]
  show ?thesis
    by (simp add: all_attempts_failed_def str_of_int_def str_of_optional_def decimal_digit_def)
qed

lemma parse_json_response_not_json:
  assumes "response_cache self = Map.empty"
    and "snd (extract_json_from_response json_loads content) \<noteq> JSON"
  shows "parse_json_response hash json_loads self content validation_model strict =
           Inr (parse_failure
                  (''No JSON content detected, found '' @
                     mode_value (snd (extract_json_from_response json_loads content)))
                  (snd (extract_json_from_response json_loads content)) content, self)"
  using assms
  by (cases "extract_json_from_response json_loads content")
     (simp add: parse_json_response_def Let_def)

lemma retry_attempts_not_json:
  assumes "\<And>k msgs. generate k msgs = Inr (answer k msgs)"
    and "\<And>k msgs. snd (extract_json_from_response json_loads (answer k msgs))
                       \<in> {MARKDOWN, CONVERSATION}"
    and "response_cache self = Map.empty" and "max_retries self = m"
    and "0 \<le> a" and "a \<le> m"
  shows "fst (retry_attempts hash json_loads generate messages validation_model None
                [a..m] self trace last_error) =
           conversation_fallback
             (answer (length (filter is_invoked trace) + nat (m - a))
                (if m = 0 then messages
                 else messages @ [LLMMessage ''user'' default_retry_instruction])) \<and>
         length (filter is_invoked
                   (snd (snd (retry_attempts hash json_loads generate messages validation_model None
                                [a..m] self trace last_error)))) =
           length (filter is_invoked trace) + nat (m - a) + 1"
  using assms(5,6)
proof (induction "nat (m - a)" arbitrary: a trace last_error)
  case 0
  then have am: "a = m" by simp
  let ?msgs = "if m = 0 then messages
               else messages @ [LLMMessage ''user'' default_retry_instruction]"
  let ?content = "answer (length (filter is_invoked trace)) ?msgs"
  have nj: "snd (extract_json_from_response json_loads ?content) \<noteq> JSON"
    using assms(2) [of "length (filter is_invoked trace)" ?msgs] by auto
  have md: "mode (parse_failure msg (snd (extract_json_from_response json_loads ?content)) c
              :: ('a, 'b) ParseResult) = Some CONVERSATION \<or>
            mode (parse_failure msg (snd (extract_json_from_response json_loads ?content)) c
              :: ('a, 'b) ParseResult) = Some MARKDOWN" for msg c
    using assms(2) [of "length (filter is_invoked trace)" ?msgs]
    by (auto simp: parse_failure_def)
  show ?case
    using md
    by (simp add: am upto_rec1 [of m m] assms(1,4) Let_def
          parse_json_response_not_json [OF assms(3) nj] parse_failure_def)
next
  case (Suc d)
  then have lt: "a < m" and d: "d = nat (m - (a + 1))" and le: "0 \<le> a + 1" "a + 1 \<le> m"
    by simp_all
  let ?msgs = "if a = 0 then messages
               else messages @ [LLMMessage ''user'' default_retry_instruction]"
  let ?content = "answer (length (filter is_invoked trace)) ?msgs"
  have nj: "snd (extract_json_from_response json_loads ?content) \<noteq> JSON"
    using assms(2) [of "length (filter is_invoked trace)" ?msgs] by auto
  have step: "retry_attempts hash json_loads generate messages validation_model None
                [a..m] self trace last_error =
              retry_attempts hash json_loads generate messages validation_model None
                [a + 1..m] self (trace @ [Invoked ?msgs])
                (Some (''No JSON content detected, found '' @
                     mode_value (snd (extract_json_from_response json_loads ?content))))"
    using lt
    by (simp add: upto_rec1 [of a m] assms(1,4) Let_def
          parse_json_response_not_json [OF assms(3) nj] parse_failure_def)
  have n: "nat (m - a) = Suc (nat (m - (a + 1)))" using lt by simp
  show ?case
    unfolding step n using Suc.hyps(1) [OF d le, of "trace @ [Invoked ?msgs]"]
    by simp
qed

text \<open>
  Claim C5. When every invocation returns a text that extraction classifies as
  markdown or conversation, \<open>generate_and_parse\<close> with a ceiling \<open>retries \<ge> 0\<close>
  invokes the model \<open>retries + 1\<close> times and returns a result that reports success,
  carries no error, is tagged with mode \<open>conversation\<close>, and whose raw content and
  data are the text of the last response (the answer to invocation number \<open>retries\<close>,
  counted from 0).
\<close>

theorem markdown_falls_back_to_conversation:
  assumes "0 \<le> retries"
    and "\<And>k msgs. generate k msgs = Inr (answer k msgs)"
    and "\<And>k msgs. snd (extract_json_from_response json_loads (answer k msgs))
                       \<in> {MARKDOWN, CONVERSATION}"
  shows "fst (generate_and_parse hash json_loads messages validation_model generate retries) =
           \<lparr>success = True,
            data = Some (ConversationData
                           (answer (nat retries)
                              (if retries = 0 then messages
                               else messages @ [LLMMessage ''user'' default_retry_instruction]))),
            error = None,
            mode = Some CONVERSATION,
            raw_content = Some (answer (nat retries)
                                  (if retries = 0 then messages
                                   else messages @ [LLMMessage ''user'' default_retry_instruction]))\<rparr> \<and>
         length (filter is_invoked
                   (snd (generate_and_parse hash json_loads messages validation_model generate
                           retries))) = nat retries + 1"
proof -
  let ?self = "\<lparr>max_retries = retries, cache_enabled = True, response_cache = Map.empty\<rparr>
                 :: ('a, 'b) LLMResponseProcessor"
  have c: "response_cache ?self = Map.empty" and m: "max_retries ?self = retries" by simp_all
  have z: "(0::int) \<le> 0" by simp
  note loop = retry_attempts_not_json
          [where generate = generate and answer = answer and json_loads = json_loads
             and self = ?self and m = retries and a = 0 and trace = "[]" and hash = hash
             and messages = messages and validation_model = validation_model
             and last_error = None, OF assms(2,3) c m z assms(1)]
  obtain result self' trace where
    r: "retry_attempts hash json_loads generate messages validation_model None
          [0..retries] ?self [] None = (result, self', trace)"
    by (cases "retry_attempts hash json_loads generate messages validation_model None
                 [0..retries] ?self [] None") auto
  show ?thesis using loop
    by (simp add: generate_and_parse_def parse_with_retry_def r conversation_fallback_def)
qed

theorem markdown_falls_back_to_conversation_witness:
  "success (fst (generate_and_parse demo_hash demo_json_loads demo_messages
          (None :: (string, unit) validation_model option) demo_markdown_model 3)) \<and>
   mode (fst (generate_and_parse demo_hash demo_json_loads demo_messages
          (None :: (string, unit) validation_model option) demo_markdown_model 3)) =
     Some CONVERSATION \<and>
   raw_content (fst (generate_and_parse demo_hash demo_json_loads demo_messages
          (None :: (string, unit) validation_model option) demo_markdown_model 3)) =
     Some ''# Login - users sign in'' \<and>
   data (fst (generate_and_parse demo_hash demo_json_loads demo_messages
          (None :: (string, unit) validation_model option) demo_markdown_model 3)) =
     Some (ConversationData ''# Login - users sign in'') \<and>
   error (fst (generate_and_parse demo_hash demo_json_loads demo_messages
          (None :: (string, unit) validation_model option) demo_markdown_model 3)) = None \<and>
   length (filter is_invoked (snd (generate_and_parse demo_hash demo_json_loads demo_messages
          (None :: (string, unit) validation_model option) demo_markdown_model 3))) = 4"
proof -
  have a: "\<And>k msgs. demo_markdown_model k msgs =
             Inr ((\<lambda>k msgs. ''# Login - users sign in'') k msgs)"
    by (simp add: demo_markdown_model_def)
  have m: "snd (extract_json_from_response demo_json_loads ''# Login - users sign in'') = MARKDOWN"
    by (simp add: extract_eval)
  then have b: "\<And>k msgs. snd (extract_json_from_response demo_json_loads
                   ((\<lambda>k msgs. ''# Login - users sign in'') k msgs)) \<in> {MARKDOWN, CONVERSATION}"
    by simp
  have z: "(0::int) \<le> 3" by simp
  from markdown_falls_back_to_conversation
         [where generate = demo_markdown_model and hash = demo_hash and json_loads = demo_json_loads
            and messages = demo_messages and retries = 3
            and validation_model = "None :: (string, unit) validation_model option"
            and answer = "\<lambda>k msgs. ''# Login - users sign in''", OF z a b]
  show ?thesis by simp
qed

subsection \<open>Extraction\<close>













end
